theory Spec2Isabelle
  imports Main
begin

section \<open>JavaScript strings\<close>

named_theorems ev \<open>defining equations unfolded when a function is run on a concrete text\<close>

text \<open>
  A JavaScript string is a sequence of UTF-16 code units. A code unit is modelled as an
  integer and a string as a list of them, so that the bullet and dash characters
  of the patterns (U+2022, U+2013, U+2014) are ordinary characters of the model.
  \<open>str\<close> turns an ASCII literal of HOL into such a string.
\<close>

type_synonym jschar = int
type_synonym jsstring = "int list"

definition str :: "string \<Rightarrow> jsstring" where
  [ev]: "str s = map of_char s"

definition is_upper :: "jschar \<Rightarrow> bool" where
  [ev]: "is_upper c = (65 \<le> c \<and> c \<le> 90)"

definition is_lower :: "jschar \<Rightarrow> bool" where
  [ev]: "is_lower c = (97 \<le> c \<and> c \<le> 122)"

definition is_digit :: "jschar \<Rightarrow> bool" where
  [ev]: "is_digit c = (48 \<le> c \<and> c \<le> 57)"

text \<open>\<open>\w\<close>: letters, digits and the underscore.\<close>

definition is_word :: "jschar \<Rightarrow> bool" where
  [ev]: "is_word c = (is_upper c \<or> is_lower c \<or> is_digit c \<or> c = 95)"

text \<open>Line terminators: LF, CR, U+2028, U+2029.\<close>

definition is_lt :: "jschar \<Rightarrow> bool" where
  [ev]: "is_lt c = (c = 10 \<or> c = 13 \<or> c = 8232 \<or> c = 8233)"

text \<open>\<open>\s\<close> and the characters removed by \<open>trim\<close>: white space and line terminators.\<close>

definition is_space :: "jschar \<Rightarrow> bool" where
  [ev]: "is_space c = ((9 \<le> c \<and> c \<le> 13) \<or> c = 32 \<or> c = 160 \<or> c = 5760 \<or>
     (8192 \<le> c \<and> c \<le> 8202) \<or> c = 8232 \<or> c = 8233 \<or> c = 8239 \<or> c = 8287 \<or>
     c = 12288 \<or> c = 65279)"

definition to_upper :: "jschar \<Rightarrow> jschar" where
  [ev]: "to_upper c = (if is_lower c then c - 32 else c)"

definition to_lower :: "jschar \<Rightarrow> jschar" where
  [ev]: "to_lower c = (if is_upper c then c + 32 else c)"

section \<open>Regular expressions\<close>

text \<open>
  The patterns of the parser are values of \<open>regex\<close>; \<open>ms\<close> is the backtracking
  matcher of ECMAScript, returning every way a pattern can match from a state, in the
  order in which backtracking tries them. The first element is the match that
  JavaScript reports.
\<close>

datatype citem = CRange jschar jschar | CWord | CDigit | CSpace

datatype regex =
    Eps
  | Chr jschar
  | Cls bool "citem list"
  | Seq regex regex
  | Alt regex regex
  | Rep nat "nat option" bool regex
  | Grp nat regex
  | Bol
  | Eol
  | WordB
  | NLook regex

datatype flags = Flags (icase: bool) (mline: bool)

datatype mstate = MState (prev: "jschar option") (rest: jsstring) (caps: "(nat \<times> jsstring) list")

fun citem_mem :: "citem \<Rightarrow> jschar \<Rightarrow> bool" where
  "citem_mem (CRange a b) c = (a \<le> c \<and> c \<le> b)"
| "citem_mem CWord c = is_word c"
| "citem_mem CDigit c = is_digit c"
| "citem_mem CSpace c = is_space c"

definition cls_mem :: "citem list \<Rightarrow> jschar \<Rightarrow> bool" where
  [ev]: "cls_mem items c = list_ex (\<lambda>i. citem_mem i c) items"

text \<open>
  With the \<open>i\<close> flag two characters match when their canonical forms agree. The patterns
  hold ASCII characters and three caseless ones, and the canonical form of a character
  outside ASCII is never an ASCII character, so folding the ASCII letters decides every
  comparison the parser makes.
\<close>

definition chr_match :: "flags \<Rightarrow> jschar \<Rightarrow> jschar \<Rightarrow> bool" where
  [ev]: "chr_match f c x = (if icase f then to_upper c = to_upper x else c = x)"

definition cls_match :: "flags \<Rightarrow> bool \<Rightarrow> citem list \<Rightarrow> jschar \<Rightarrow> bool" where
  [ev]: "cls_match f neg items x =
     (neg \<noteq> (cls_mem items x \<or> (icase f \<and> (cls_mem items (to_upper x) \<or> cls_mem items (to_lower x)))))"

fun groups_of :: "regex \<Rightarrow> nat list" where
  "groups_of (Seq a b) = groups_of a @ groups_of b"
| "groups_of (Alt a b) = groups_of a @ groups_of b"
| "groups_of (Rep mn mx g r) = groups_of r"
| "groups_of (Grp k r) = k # groups_of r"
| "groups_of (NLook r) = groups_of r"
| "groups_of r = []"

definition bind_cap :: "nat \<Rightarrow> jsstring \<Rightarrow> mstate \<Rightarrow> mstate" where
  [ev]: "bind_cap k from y =
     MState (prev y) (rest y)
       ((k, take (length from - length (rest y)) from) # filter (\<lambda>p. fst p \<noteq> k) (caps y))"

definition clear_caps :: "nat list \<Rightarrow> mstate \<Rightarrow> mstate" where
  [ev]: "clear_caps ks s = MState (prev s) (rest s) (filter (\<lambda>p. fst p \<notin> set ks) (caps s))"

definition is_word_opt :: "jschar option \<Rightarrow> bool" where
  [ev]: "is_word_opt c = (case c of None \<Rightarrow> False | Some x \<Rightarrow> is_word x)"

definition next_char :: "mstate \<Rightarrow> jschar option" where
  [ev]: "next_char s = (case rest s of [] \<Rightarrow> None | x # xs \<Rightarrow> Some x)"

definition step_char :: "bool \<Rightarrow> mstate \<Rightarrow> mstate list" where
  [ev]: "step_char ok s = (case rest s of [] \<Rightarrow> [] | x # xs \<Rightarrow> if ok then [MState (Some x) xs (caps s)] else [])"

definition at_bol :: "flags \<Rightarrow> mstate \<Rightarrow> bool" where
  [ev]: "at_bol f s = (case prev s of None \<Rightarrow> True | Some x \<Rightarrow> mline f \<and> is_lt x)"

definition at_eol :: "flags \<Rightarrow> mstate \<Rightarrow> bool" where
  [ev]: "at_eol f s = (case rest s of [] \<Rightarrow> True | x # xs \<Rightarrow> mline f \<and> is_lt x)"

definition dec_max :: "nat option \<Rightarrow> nat option" where
  [ev]: "dec_max mx = (case mx of None \<Rightarrow> None | Some n \<Rightarrow> Some (n - 1))"

text \<open>
  An iteration of a quantifier with minimum 0 that consumes nothing is rejected
  (RepeatMatcher, step 2.b of the ECMAScript definition).
\<close>

definition progress :: "nat \<Rightarrow> mstate \<Rightarrow> mstate \<Rightarrow> bool" where
  [ev]: "progress mn s y = (\<not> (mn = 0 \<and> length (rest s) \<le> length (rest y)))"

definition rep_result :: "nat \<Rightarrow> bool \<Rightarrow> mstate list \<Rightarrow> mstate \<Rightarrow> mstate list" where
  [ev]: "rep_result mn greedy more s = (if mn \<noteq> 0 then more else if greedy then more @ [s] else s # more)"

fun rsize :: "regex \<Rightarrow> nat" where
  "rsize (Seq a b) = Suc (rsize a + rsize b)"
| "rsize (Alt a b) = Suc (rsize a + rsize b)"
| "rsize (Rep mn mx g r) = Suc (rsize r)"
| "rsize (Grp k r) = Suc (rsize r)"
| "rsize (NLook r) = Suc (rsize r)"
| "rsize r = 0"

fun rmin :: "regex \<Rightarrow> nat" where
  "rmin (Rep mn mx g r) = mn"
| "rmin r = 0"

primrec max_rest :: "mstate list \<Rightarrow> nat" where
  "max_rest [] = 0"
| "max_rest (s # ss) = max (length (rest s)) (max_rest ss)"

function ms :: "flags \<Rightarrow> regex \<Rightarrow> mstate list \<Rightarrow> mstate list" where
  "ms f r [] = []"
| "ms f Eps (s # ss) = s # ms f Eps ss"
| "ms f (Chr c) (s # ss) =
     step_char (case next_char s of None \<Rightarrow> False | Some x \<Rightarrow> chr_match f c x) s @ ms f (Chr c) ss"
| "ms f (Cls neg items) (s # ss) =
     step_char (case next_char s of None \<Rightarrow> False | Some x \<Rightarrow> cls_match f neg items x) s
       @ ms f (Cls neg items) ss"
| "ms f (Seq a b) (s # ss) = ms f b (ms f a [s]) @ ms f (Seq a b) ss"
| "ms f (Alt a b) (s # ss) = ms f a [s] @ ms f b [s] @ ms f (Alt a b) ss"
| "ms f (Rep mn mx g r) (s # ss) =
     (if mx = Some 0 then [s]
      else rep_result mn g
             (ms f (Rep (mn - 1) (dec_max mx) g r)
                (filter (progress mn s) (ms f r [clear_caps (groups_of r) s]))) s)
       @ ms f (Rep mn mx g r) ss"
| "ms f (Grp k r) (s # ss) = map (bind_cap k (rest s)) (ms f r [s]) @ ms f (Grp k r) ss"
| "ms f Bol (s # ss) = (if at_bol f s then [s] else []) @ ms f Bol ss"
| "ms f Eol (s # ss) = (if at_eol f s then [s] else []) @ ms f Eol ss"
| "ms f WordB (s # ss) =
     (if is_word_opt (prev s) \<noteq> is_word_opt (next_char s) then [s] else []) @ ms f WordB ss"
| "ms f (NLook r) (s # ss) = (if ms f r [s] = [] then [s] else []) @ ms f (NLook r) ss"
  by pat_completeness auto

lemma max_rest_filter_progress:
  "max_rest (filter (progress 0 s) ys) < length (rest s) \<or> filter (progress 0 s) ys = []"
  by (induction ys) (auto simp: progress_def)

termination ms
  apply (relation "inv_image (less_than <*lex*> less_than <*lex*> less_than <*lex*> less_than)
    (\<lambda>(f, r, ss). (rsize r, rmin r, max_rest ss, length ss))")
  apply (intro wf_inv_image wf_lex_prod wf_less_than)
  apply (auto simp: less_max_iff_disj)
  subgoal for f mn mx r s ss
    using max_rest_filter_progress [of s "ms f r [clear_caps (groups_of r) s]"]
    by (cases mn) auto
  subgoal for f mn mx r s ss
    using max_rest_filter_progress [of s "ms f r [clear_caps (groups_of r) s]"]
    by (cases mn) auto
  done


subsection \<open>Building patterns\<close>

fun lit :: "jsstring \<Rightarrow> regex" where
  "lit [] = Eps"
| "lit [c] = Chr c"
| "lit (c # cs) = Seq (Chr c) (lit cs)"

definition word :: "string \<Rightarrow> regex" where
  [ev]: "word s = lit (str s)"

fun seqs :: "regex list \<Rightarrow> regex" where
  "seqs [] = Eps"
| "seqs [r] = r"
| "seqs (r # rs) = Seq r (seqs rs)"

fun alts :: "regex list \<Rightarrow> regex" where
  "alts [] = Eps"
| "alts [r] = r"
| "alts (r # rs) = Alt r (alts rs)"

definition words :: "string list \<Rightarrow> regex" where
  [ev]: "words ws = alts (map word ws)"

definition many :: "regex \<Rightarrow> regex" where
  [ev]: "many r = Rep 0 None True r"

definition many1 :: "regex \<Rightarrow> regex" where
  [ev]: "many1 r = Rep 1 None True r"

definition maybe :: "regex \<Rightarrow> regex" where
  [ev]: "maybe r = Rep 0 (Some 1) True r"

definition many_lazy :: "regex \<Rightarrow> regex" where
  [ev]: "many_lazy r = Rep 0 None False r"

definition many1_lazy :: "regex \<Rightarrow> regex" where
  [ev]: "many1_lazy r = Rep 1 None False r"

definition chr :: "char \<Rightarrow> regex" where
  [ev]: "chr c = Chr (of_char c)"

definition ch :: "char \<Rightarrow> citem" where
  [ev]: "ch c = CRange (of_char c) (of_char c)"

definition rng :: "char \<Rightarrow> char \<Rightarrow> citem" where
  [ev]: "rng a b = CRange (of_char a) (of_char b)"

definition nl :: citem where
  [ev]: "nl = CRange 10 10"

text \<open>\<open>[^\n]\<close>, \<open>\s\<close>, \<open>\d\<close>, \<open>\w\<close>, and the dot, which excludes the line terminators.\<close>

definition not_nl :: regex where
  [ev]: "not_nl = Cls True [nl]"

definition sp :: regex where
  [ev]: "sp = Cls False [CSpace]"

definition dg :: regex where
  [ev]: "dg = Cls False [CDigit]"

definition wd :: regex where
  [ev]: "wd = Cls False [CWord]"

definition dot :: regex where
  [ev]: "dot = Cls True [CRange 10 10, CRange 13 13, CRange 8232 8233]"

text \<open>The bullet U+2022, the en dash U+2013 and the em dash U+2014.\<close>

definition bullet :: jschar where
  [ev]: "bullet = 8226"

definition ndash :: jschar where
  [ev]: "ndash = 8211"

definition mdash :: jschar where
  [ev]: "mdash = 8212"

subsection \<open>Searching\<close>

text \<open>
  A match as \<open>String.prototype.match\<close> and \<open>RegExp.prototype.exec\<close> return it: the
  index, the matched text, the capture groups, and (for the global loops) the text
  after the match with the character before it. An unset group is absent from
  \<open>m_caps\<close>.
\<close>

datatype jsmatch = JSMatch (m_index: nat) (m_whole: jsstring) (m_caps: "(nat \<times> jsstring) list")
  (m_prev: "jschar option") (m_rest: jsstring)

fun first_match :: "nat \<Rightarrow> jsstring \<Rightarrow> mstate list \<Rightarrow> jsmatch option" where
  "first_match i xs [] = None"
| "first_match i xs (y # ys) =
     Some (JSMatch i (take (length xs - length (rest y)) xs) (caps y) (prev y) (rest y))"

fun search_from :: "flags \<Rightarrow> regex \<Rightarrow> jschar option \<Rightarrow> jsstring \<Rightarrow> nat \<Rightarrow> jsmatch option" where
  "search_from f r p [] i = first_match i [] (ms f r [MState p [] []])"
| "search_from f r p (c # cs) i =
     (case first_match i (c # cs) (ms f r [MState p (c # cs) []]) of
        Some m \<Rightarrow> Some m
      | None \<Rightarrow> search_from f r (Some c) cs (Suc i))"

text \<open>\<open>text.match(r)\<close> for a pattern without the \<open>g\<close> flag.\<close>

definition regex_match :: "flags \<Rightarrow> regex \<Rightarrow> jsstring \<Rightarrow> jsmatch option" where
  [ev]: "regex_match f r text = search_from f r None text 0"

definition regex_test :: "flags \<Rightarrow> regex \<Rightarrow> jsstring \<Rightarrow> bool" where
  [ev]: "regex_test f r text = (regex_match f r text \<noteq> None)"

text \<open>
  \<open>match[k]\<close>. An unset group is \<open>undefined\<close> in JavaScript; the parser either tests
  such a group for truthiness, where \<open>undefined\<close> and the empty string agree, or reads a
  group that every match of its pattern sets.
\<close>

definition grp :: "jsmatch \<Rightarrow> nat \<Rightarrow> jsstring" where
  [ev]: "grp m k = (case map_of (m_caps m) k of None \<Rightarrow> [] | Some w \<Rightarrow> w)"

text \<open>The flags of a pattern: none, \<open>i\<close>, \<open>m\<close>.\<close>

definition re_plain :: flags where
  [ev]: "re_plain = Flags False False"

definition re_i :: flags where
  [ev]: "re_i = Flags True False"

definition re_m :: flags where
  [ev]: "re_m = Flags False True"


section \<open>String operations of JavaScript\<close>

definition trim :: "jsstring \<Rightarrow> jsstring" where
  [ev]: "trim s = rev (dropWhile is_space (rev (dropWhile is_space s)))"

text \<open>\<open>s.split(c)\<close> for a one-character separator; the empty string gives one empty piece.\<close>

fun split_on :: "jschar \<Rightarrow> jsstring \<Rightarrow> jsstring list" where
  "split_on c [] = [[]]"
| "split_on c (x # xs) =
     (if x = c then [] # split_on c xs
      else (case split_on c xs of [] \<Rightarrow> [[x]] | w # ws \<Rightarrow> (x # w) # ws))"

fun join :: "jsstring \<Rightarrow> jsstring list \<Rightarrow> jsstring" where
  "join sep [] = []"
| "join sep [w] = w"
| "join sep (w # ws) = w @ sep @ join sep ws"

fun starts_with :: "jsstring \<Rightarrow> jsstring \<Rightarrow> bool" where
  "starts_with [] s = True"
| "starts_with (p # ps) [] = False"
| "starts_with (p # ps) (x # xs) = (p = x \<and> starts_with ps xs)"

definition ends_with :: "jsstring \<Rightarrow> jsstring \<Rightarrow> bool" where
  [ev]: "ends_with p s = starts_with (rev p) (rev s)"

fun index_from :: "jsstring \<Rightarrow> jsstring \<Rightarrow> nat \<Rightarrow> nat option" where
  "index_from needle [] i = (if needle = [] then Some i else None)"
| "index_from needle (x # xs) i =
     (if starts_with needle (x # xs) then Some i else index_from needle xs (Suc i))"

text \<open>\<open>s.indexOf(needle, from)\<close>, with \<open>None\<close> for -1, and \<open>s.includes(needle)\<close>.\<close>

definition index_of :: "jsstring \<Rightarrow> jsstring \<Rightarrow> nat \<Rightarrow> nat option" where
  [ev]: "index_of needle s from = index_from needle (drop from s) (min from (length s))"

definition str_includes :: "jsstring \<Rightarrow> jsstring \<Rightarrow> bool" where
  [ev]: "str_includes needle s = (index_from needle s 0 \<noteq> None)"

text \<open>\<open>s.substring(a, b)\<close>: both indices are clamped to the length, and swapped when \<open>a > b\<close>.\<close>

definition substring :: "jsstring \<Rightarrow> nat \<Rightarrow> nat \<Rightarrow> jsstring" where
  [ev]: "substring s a b =
     take (max (min a (length s)) (min b (length s)) - min (min a (length s)) (min b (length s)))
       (drop (min (min a (length s)) (min b (length s))) s)"

text \<open>\<open>s.replace(needle, '')\<close> for a string \<open>needle\<close>: the first occurrence is removed.\<close>

fun remove_first :: "jsstring \<Rightarrow> jsstring \<Rightarrow> jsstring" where
  "remove_first needle [] = []"
| "remove_first needle (x # xs) =
     (if starts_with needle (x # xs) then drop (length needle) (x # xs)
      else x # remove_first needle xs)"

text \<open>
  \<open>toLowerCase\<close> and \<open>toUpperCase\<close>. The parser compares the result with ASCII words or
  applies them to text matched by ASCII patterns; the two characters outside ASCII whose
  lower case is ASCII (the Kelvin sign and the dotted capital I) are written out.
\<close>

definition lower_unit :: "jschar \<Rightarrow> jsstring" where
  [ev]: "lower_unit c = (if c = 8490 then [107] else if c = 304 then [105, 775] else [to_lower c])"

definition lower :: "jsstring \<Rightarrow> jsstring" where
  [ev]: "lower s = concat (map lower_unit s)"

definition upper :: "jsstring \<Rightarrow> jsstring" where
  [ev]: "upper s = map to_upper s"

text \<open>\<open>if (!xs.includes(x)) xs.push(x)\<close>, and \<open>[...new Set(xs)]\<close>.\<close>

definition push_new :: "'a list \<Rightarrow> 'a \<Rightarrow> 'a list" where
  [ev]: "push_new xs x = (if x \<in> set xs then xs else xs @ [x])"

definition dedup :: "'a list \<Rightarrow> 'a list" where
  [ev]: "dedup xs = foldl push_new [] xs"

subsection \<open>Global patterns\<close>

text \<open>
  \<open>r.exec(text)\<close> for a pattern with the \<open>g\<close> flag whose \<open>lastIndex\<close> is \<open>i\<close>: the search
  starts at \<open>i\<close> and sees the character before it.
\<close>

definition exec_at :: "flags \<Rightarrow> regex \<Rightarrow> jsstring \<Rightarrow> nat \<Rightarrow> jsmatch option" where
  [ev]: "exec_at f r text i =
     (if length text < i then None
      else search_from f r (if i = 0 then None else Some (text ! (i - 1))) (drop i text) i)"

text \<open>
  \<open>text.match(r)\<close> for a pattern with the \<open>g\<close> flag: all matches from left to right;
  after an empty match the search moves one character on. The tests on the lengths
  always hold; they are what the termination proof reads.
\<close>

function match_all :: "flags \<Rightarrow> regex \<Rightarrow> jschar option \<Rightarrow> jsstring \<Rightarrow> nat \<Rightarrow> jsmatch list" where
  "match_all f r p xs i =
     (case search_from f r p xs i of
        None \<Rightarrow> []
      | Some m \<Rightarrow>
          m # (if m_whole m = []
               then (case m_rest m of
                       [] \<Rightarrow> []
                     | c # cs \<Rightarrow> if length cs < length xs
                                 then match_all f r (Some c) cs (Suc (m_index m)) else [])
               else if length (m_rest m) < length xs
                    then match_all f r (m_prev m) (m_rest m) (m_index m + length (m_whole m))
                    else []))"
  by pat_completeness auto
termination
  by (relation "measure (\<lambda>(f, r, p, xs, i). length xs)") auto

declare match_all.simps [simp del, ev]

definition match_global :: "flags \<Rightarrow> regex \<Rightarrow> jsstring \<Rightarrow> jsstring list" where
  [ev]: "match_global f r text = map m_whole (match_all f r None text 0)"

text \<open>
  \<open>while ((m = r.exec(text)) !== null) { ... }\<close> for a pattern with the \<open>g\<close> flag, where
  the body leaves \<open>lastIndex\<close> alone: the matches in order. After an empty match
  \<open>lastIndex\<close> stays where it is and the loop finds the same match for ever: \<open>None\<close>.
\<close>

function exec_all :: "flags \<Rightarrow> regex \<Rightarrow> jschar option \<Rightarrow> jsstring \<Rightarrow> nat \<Rightarrow> jsmatch list option" where
  "exec_all f r p xs i =
     (case search_from f r p xs i of
        None \<Rightarrow> Some []
      | Some m \<Rightarrow>
          if m_whole m \<noteq> [] \<and> length (m_rest m) < length xs
          then map_option ((#) m) (exec_all f r (m_prev m) (m_rest m) (m_index m + length (m_whole m)))
          else None)"
  by pat_completeness auto
termination
  by (relation "measure (\<lambda>(f, r, p, xs, i). length xs)") auto

declare exec_all.simps [simp del, ev]

definition exec_loop :: "flags \<Rightarrow> regex \<Rightarrow> jsstring \<Rightarrow> jsmatch list option" where
  [ev]: "exec_loop f r text = exec_all f r None text 0"

text \<open>\<open>s.replace(r, '')\<close> without and with the \<open>g\<close> flag.\<close>

definition replace_first :: "flags \<Rightarrow> regex \<Rightarrow> jsstring \<Rightarrow> jsstring" where
  [ev]: "replace_first f r s =
     (case regex_match f r s of None \<Rightarrow> s | Some m \<Rightarrow> take (m_index m) s @ m_rest m)"

function remove_all :: "flags \<Rightarrow> regex \<Rightarrow> jschar option \<Rightarrow> jsstring \<Rightarrow> jsstring" where
  "remove_all f r p xs =
     (case search_from f r p xs 0 of
        None \<Rightarrow> xs
      | Some m \<Rightarrow>
          take (m_index m) xs @
          (if m_whole m = []
           then (case m_rest m of
                   [] \<Rightarrow> []
                 | c # cs \<Rightarrow> if length cs < length xs then c # remove_all f r (Some c) cs else c # cs)
           else if length (m_rest m) < length xs then remove_all f r (m_prev m) (m_rest m)
                else m_rest m))"
  by pat_completeness auto
termination
  by (relation "measure (\<lambda>(f, r, p, xs). length xs)") auto

declare remove_all.simps [simp del, ev]

definition replace_all :: "flags \<Rightarrow> regex \<Rightarrow> jsstring \<Rightarrow> jsstring" where
  [ev]: "replace_all f r s = remove_all f r None s"

text \<open>
  \<open>s.split(r)\<close> for a pattern without groups: \<open>cur\<close> holds, reversed, the characters since
  the end of the last separator. A separator match that is empty at the place where the
  last one ended is skipped.
\<close>

function split_loop :: "flags \<Rightarrow> regex \<Rightarrow> jschar option \<Rightarrow> jsstring \<Rightarrow> jsstring \<Rightarrow> jsstring list" where
  "split_loop f r p [] cur = [rev cur]"
| "split_loop f r p (c # cs) cur =
     (case ms f r [MState p (c # cs) []] of
        [] \<Rightarrow> split_loop f r (Some c) cs (c # cur)
      | y # ys \<Rightarrow>
          if length (rest y) < length (c # cs)
          then rev cur # split_loop f r (prev y) (rest y) []
          else if cur = [] then split_loop f r (Some c) cs [c]
          else rev cur # split_loop f r (Some c) cs [c])"
  by pat_completeness auto
termination
  by (relation "measure (\<lambda>(f, r, p, xs, cur). length xs)") auto

definition split_regex :: "flags \<Rightarrow> regex \<Rightarrow> jsstring \<Rightarrow> jsstring list" where
  [ev]: "split_regex f r s =
     (if s = [] then (if ms f r [MState None [] []] = [] then [[]] else [])
      else split_loop f r None s [])"


section \<open>The section locator\<close>

text \<open>
  \<open>extractSection(text, sectionHeaders)\<close>. The seven header shapes are built from the
  synonym by interpolation into a pattern source; the synonyms of the parser are words of
  letters separated by spaces (one holds a hyphen), for which the interpolated source
  matches the synonym literally. All patterns carry the \<open>i\<close> flag.
\<close>

definition commonHeaders :: "jsstring list" where
  [ev]: "commonHeaders = map str
    [''education'', ''experience'', ''skills'', ''projects'', ''certifications'',
     ''achievements'', ''publications'', ''references'', ''interests'', ''summary'',
     ''objective'', ''profile'', ''contact'', ''personal'', ''work history'',
     ''employment'', ''qualifications'', ''languages'', ''awards'', ''volunteer'',
     ''research'', ''teaching'', ''grants'', ''funding'', ''conferences'', ''presentations'',
     ''professional activities'', ''memberships'', ''affiliations'', ''service'',
     ''honors'', ''distinctions'', ''extracurricular'', ''activities'', ''leadership'',
     ''technical skills'', ''soft skills'', ''coursework'', ''training'', ''workshops'']"

definition headerPatterns :: "jsstring \<Rightarrow> regex list" where
  [ev]: "headerPatterns header =
    [seqs [WordB, lit header, many sp, chr CHR '':'', many sp, many not_nl, Chr 10],
     seqs [WordB, lit header, WordB, many not_nl, Chr 10,
           many1 (Cls False [ch CHR ''-'', ch CHR ''='']), Chr 10],
     seqs [WordB, lit (upper header), WordB, many not_nl, Chr 10],
     Alt (seqs [chr CHR ''['', many sp, lit header, many sp, chr CHR '']''])
         (seqs [chr CHR ''('', many sp, lit header, many sp, chr CHR '')'']),
     Alt (seqs [Chr 92, word ''section{'', lit header, chr CHR ''}''])
         (seqs [Chr 92, word ''subsection{'', lit header, chr CHR ''}'']),
     seqs [many1 dg, chr CHR ''.'', many sp, lit header, WordB, many not_nl, Chr 10],
     seqs [WordB, lit header, WordB, many not_nl, Chr 10]]"

text \<open>The first pattern of a list that matches, with its match (the inner \<open>for\<close> loops).\<close>

fun first_pattern :: "flags \<Rightarrow> regex list \<Rightarrow> jsstring \<Rightarrow> jsmatch option" where
  "first_pattern f [] text = None"
| "first_pattern f (p # ps) text =
     (case regex_match f p text of Some m \<Rightarrow> Some m | None \<Rightarrow> first_pattern f ps text)"

text \<open>
  The loop over \<open>commonHeaders\<close> that lowers \<open>endIndex\<close>: \<open>tail\<close> is
  \<open>text.substring(startIndex)\<close>.
\<close>

fun section_end :: "jsstring \<Rightarrow> nat \<Rightarrow> jsstring \<Rightarrow> jsstring list \<Rightarrow> nat \<Rightarrow> nat" where
  "section_end tail startIndex header [] endIndex = endIndex"
| "section_end tail startIndex header (nextHeader # hs) endIndex =
     (if nextHeader = header then section_end tail startIndex header hs endIndex
      else (case first_pattern re_i (headerPatterns nextHeader) tail of
              None \<Rightarrow> section_end tail startIndex header hs endIndex
            | Some nextMatch \<Rightarrow>
                section_end tail startIndex header hs
                  (if startIndex + m_index nextMatch < endIndex
                   then startIndex + m_index nextMatch else endIndex)))"

definition match_end :: "jsmatch \<Rightarrow> nat" where
  [ev]: "match_end m = m_index m + length (m_whole m)"

definition section_span :: "jsstring \<Rightarrow> jsstring \<Rightarrow> jsmatch \<Rightarrow> jsstring" where
  [ev]: "section_span text header m =
     trim (substring text (match_end m)
       (section_end (substring text (match_end m) (length text)) (match_end m) header
          commonHeaders (length text)))"

text \<open>
  The loop over the synonyms: \<open>n\<close> is \<open>sectionHeaders.length\<close> and \<open>sectionText\<close> the
  variable of that name, which keeps the span of a synonym that was passed over.
\<close>

fun extractSection_loop :: "jsstring \<Rightarrow> nat \<Rightarrow> jsstring list \<Rightarrow> jsstring \<Rightarrow> jsstring" where
  "extractSection_loop text n [] sectionText = sectionText"
| "extractSection_loop text n (header # hs) sectionText =
     (case first_pattern re_i (headerPatterns header) text of
        None \<Rightarrow> extractSection_loop text n hs sectionText
      | Some m \<Rightarrow>
          if length (section_span text header m) < 10 \<and> 1 < n
          then extractSection_loop text n hs (section_span text header m)
          else section_span text header m)"

definition extractSection :: "jsstring \<Rightarrow> jsstring list \<Rightarrow> jsstring" where
  [ev]: "extractSection text sectionHeaders =
     extractSection_loop text (length sectionHeaders) sectionHeaders []"

text \<open>A text given by its lines, each ended by a line feed.\<close>

definition lines_text :: "string list \<Rightarrow> jsstring" where
  [ev]: "lines_text ls = concat (map (\<lambda>l. str l @ [10]) ls)"

section \<open>The date range parser\<close>

record date_range =
  startDate :: jsstring
  endDate :: jsstring

definition year4 :: regex where
  [ev]: "year4 = seqs [Alt (word ''19'') (word ''20''), Rep 2 (Some 2) True dg]"

text \<open>\<open>\s*(?:-|to|\<dots>)\s*\<close> with the en dash and the em dash.\<close>

definition range_sep :: regex where
  [ev]: "range_sep = seqs [many sp, alts [chr CHR ''-'', word ''to'', Chr ndash, Chr mdash], many sp]"

definition open_end :: "regex list" where
  [ev]: "open_end = [word ''present'', word ''current'', word ''now'']"

definition month_name :: regex where
  [ev]: "month_name = words [''Jan'', ''Feb'', ''Mar'', ''Apr'', ''May'', ''Jun'', ''Jul'', ''Aug'',
     ''Sep'', ''Oct'', ''Nov'', ''Dec'', ''January'', ''February'', ''March'', ''April'', ''May'',
     ''June'', ''July'', ''August'', ''September'', ''October'', ''November'', ''December'']"

definition month_year :: regex where
  [ev]: "month_year = seqs [month_name, many1 sp, year4]"

definition slash_year :: regex where
  [ev]: "slash_year = seqs [Rep 1 (Some 2) True dg, chr CHR ''/'', year4]"

definition dateRangePatterns :: "regex list" where
  [ev]: "dateRangePatterns =
    [seqs [Grp 1 year4, range_sep, Grp 2 (alts (year4 # open_end))],
     seqs [Grp 1 month_year, range_sep, Grp 2 (alts (month_year # open_end))],
     seqs [Grp 1 slash_year, range_sep, Grp 2 (alts (slash_year # open_end))]]"

definition is_open_end :: "jsstring \<Rightarrow> bool" where
  [ev]: "is_open_end w = (lower w = str ''present'' \<or> lower w = str ''current'' \<or> lower w = str ''now'')"

definition extractDateRange :: "jsstring \<Rightarrow> date_range" where
  [ev]: "extractDateRange text =
     (case first_pattern re_i dateRangePatterns text of
        None \<Rightarrow> \<lparr>startDate = [], endDate = []\<rparr>
      | Some m \<Rightarrow>
          \<lparr>startDate = grp m 1,
           endDate = (if is_open_end (grp m 2) then str ''Present'' else grp m 2)\<rparr>)"

section \<open>What every match of a pattern does\<close>

text \<open>The least number of characters a match of the pattern consumes.\<close>

fun min_len :: "regex \<Rightarrow> nat" where
  "min_len (Chr c) = 1"
| "min_len (Cls neg items) = 1"
| "min_len (Seq a b) = min_len a + min_len b"
| "min_len (Alt a b) = min (min_len a) (min_len b)"
| "min_len (Grp k r) = min_len r"
| "min_len (Rep mn mx g r) = (if mn = 0 \<or> mx = Some 0 then 0 else min_len r)"
| "min_len r = 0"

text \<open>\<open>binds r k\<close>: every match of \<open>r\<close> sets group \<open>k\<close>, to a text that is not empty.\<close>

fun binds :: "regex \<Rightarrow> nat \<Rightarrow> bool" where
  "binds (Grp j r) k = (if j = k then 0 < min_len r else binds r k)"
| "binds (Seq a b) k = ((binds a k \<and> k \<notin> set (groups_of b)) \<or> binds b k)"
| "binds (Alt a b) k = (binds a k \<and> binds b k)"
| "binds r k = False"


section \<open>Values of JavaScript\<close>

text \<open>
  A function returning \<open>string | null\<close> returns \<open>jsstring option\<close>; \<open>x || d\<close> takes the
  default for \<open>null\<close> and for the empty string.
\<close>

definition js_or :: "jsstring option \<Rightarrow> jsstring \<Rightarrow> jsstring" where
  [ev]: "js_or x d = (case x of None \<Rightarrow> d | Some s \<Rightarrow> if s = [] then d else s)"

text \<open>
  Numbers: the integers the parser computes, the two infinities and \<open>NaN\<close>. A Number is a
  double: an integer of size below \<open>2^53\<close> is held as it is, a larger one is rounded to the
  nearest double, a tie to the even significand, and to an infinity from
  \<open>2^1024 - 2^970\<close> on. \<open>bit_len n\<close> is the number of binary digits of \<open>n\<close>.
\<close>

datatype jsnum = NaN | Num int | PosInf | NegInf

function bit_len :: "int \<Rightarrow> nat" where
  "bit_len n = (if n \<le> 0 then 0 else Suc (bit_len (n div 2)))"
  by pat_completeness auto
termination
  by (relation "measure nat") auto

declare bit_len.simps [simp del]

definition round_nonneg :: "int \<Rightarrow> jsnum" where
  [ev]: "round_nonneg n =
     (if n < 9007199254740992 then Num n
      else (let e = bit_len n - 53;
                q = n div 2 ^ e;
                r = n mod 2 ^ e;
                v = (if 2 ^ e < 2 * r \<or> (2 * r = 2 ^ e \<and> odd q) then q + 1 else q) * 2 ^ e
            in if 2 ^ 1024 \<le> v then PosInf else Num v))"

fun js_neg :: "jsnum \<Rightarrow> jsnum" where
  "js_neg NaN = NaN"
| "js_neg (Num a) = Num (- a)"
| "js_neg PosInf = NegInf"
| "js_neg NegInf = PosInf"

text \<open>The Number for an integer, and the sum and difference of two Numbers.\<close>

definition to_number :: "int \<Rightarrow> jsnum" where
  [ev]: "to_number n = (if n < 0 then js_neg (round_nonneg (- n)) else round_nonneg n)"

fun js_add :: "jsnum \<Rightarrow> jsnum \<Rightarrow> jsnum" where
  "js_add NaN b = NaN"
| "js_add a NaN = NaN"
| "js_add (Num a) (Num b) = to_number (a + b)"
| "js_add PosInf NegInf = NaN"
| "js_add NegInf PosInf = NaN"
| "js_add PosInf b = PosInf"
| "js_add a PosInf = PosInf"
| "js_add NegInf b = NegInf"
| "js_add a NegInf = NegInf"

definition js_sub :: "jsnum \<Rightarrow> jsnum \<Rightarrow> jsnum" where
  [ev]: "js_sub a b = js_add a (js_neg b)"

text \<open>\<open>n || 0\<close>: \<open>NaN\<close> and 0 give 0.\<close>

fun num_or_zero :: "jsnum \<Rightarrow> jsnum" where
  "num_or_zero NaN = Num 0"
| "num_or_zero n = n"

text \<open>
  \<open>parseInt(s, 10)\<close>: white space is skipped, a sign is read, and the longest run of
  digits gives the value, as a Number; without a digit the result is \<open>NaN\<close>.
\<close>

definition digits_value :: "jsstring \<Rightarrow> int" where
  [ev]: "digits_value ds = foldl (\<lambda>acc d. 10 * acc + (d - 48)) 0 ds"

definition parse_unsigned :: "jsstring \<Rightarrow> jsnum" where
  [ev]: "parse_unsigned s =
     (if takeWhile is_digit s = [] then NaN else round_nonneg (digits_value (takeWhile is_digit s)))"

definition parseInt :: "jsstring \<Rightarrow> jsnum" where
  [ev]: "parseInt s =
     (case dropWhile is_space s of
        [] \<Rightarrow> NaN
      | c # cs \<Rightarrow> if c = 45 then js_neg (parse_unsigned cs)
                  else if c = 43 then parse_unsigned cs
                  else parse_unsigned (c # cs))"

text \<open>The decimal digits of a year: \<open>new Date().getFullYear().toString()\<close>.\<close>

function show_digits :: "int \<Rightarrow> jsstring" where
  "show_digits n = (if n < 10 then [48 + n] else show_digits (n div 10) @ [48 + n mod 10])"
  by pat_completeness auto
termination
  by (relation "measure nat") auto

declare show_digits.simps [simp del]

definition show_int :: "int \<Rightarrow> jsstring" where
  [ev]: "show_int n = (if n < 0 then 45 # show_digits (- n) else show_digits n)"

section \<open>Shapes shared by the patterns\<close>

text \<open>\<open>(?:a|b|c)\s*:?\s*\<close>: a label, an optional colon, white space.\<close>

definition label :: "string list \<Rightarrow> regex" where
  [ev]: "label ws = seqs [words ws, many sp, maybe (chr CHR '':''), many sp]"

definition chars :: "string \<Rightarrow> citem list" where
  [ev]: "chars s = map ch s"

definition upper_az :: citem where
  [ev]: "upper_az = rng CHR ''A'' CHR ''Z''"

definition lower_az :: citem where
  [ev]: "lower_az = rng CHR ''a'' CHR ''z''"

definition digit_09 :: citem where
  [ev]: "digit_09 = rng CHR ''0'' CHR ''9''"

definition apostrophe :: citem where
  [ev]: "apostrophe = CRange 39 39"

text \<open>\<open>(?:https?:\/\/)?(?:www\.)?\<close>\<close>

definition scheme_opt :: regex where
  [ev]: "scheme_opt = maybe (seqs [word ''http'', maybe (chr CHR ''s''), word ''://''])"

definition www_opt :: regex where
  [ev]: "www_opt = maybe (word ''www.'')"

text \<open>\<open>[\w-]+\<close> and \<open>(?:\/[\w-]+)*\<close>\<close>

definition slug :: regex where
  [ev]: "slug = many1 (Cls False [CWord, ch CHR ''-''])"

definition slug_path :: regex where
  [ev]: "slug_path = many (Seq (chr CHR ''/'') slug)"

text \<open>\<open>[\w-\.\/?%&=]\<close>: a class escape beside a hyphen makes the hyphen a member.\<close>

definition path_char :: regex where
  [ev]: "path_char = Cls False (CWord # chars ''-./?%&='')"

text \<open>\<open>[\w-]+\.[a-z]{2,}(?:\/[\w-\.\/?%&=]*)?\<close>\<close>

definition host_path :: regex where
  [ev]: "host_path = seqs [slug, chr CHR ''.'', Rep 2 None True (Cls False [lower_az]),
     maybe (Seq (chr CHR ''/'') (many path_char))]"

text \<open>\<open>if (!url.startsWith('http')) return 'https://' + url; return url;\<close>\<close>

definition ensure_https :: "jsstring \<Rightarrow> jsstring" where
  [ev]: "ensure_https url = (if starts_with (str ''http'') url then url else str ''https://'' @ url)"

text \<open>
  The loop over a labeled pattern and a plain one: group 1 of the first, the whole match
  of the second. The labeled patterns carry the \<open>i\<close> flag, the plain ones no flag.
\<close>

definition labeled_or_plain :: "regex \<Rightarrow> regex \<Rightarrow> jsstring \<Rightarrow> jsstring option" where
  [ev]: "labeled_or_plain labeled plain text =
     (case regex_match re_i labeled text of
        Some m \<Rightarrow> Some (grp m 1)
      | None \<Rightarrow> (case regex_match re_plain plain text of
                   Some m \<Rightarrow> Some (m_whole m)
                 | None \<Rightarrow> None))"

section \<open>Identity\<close>

record name_info =
  firstName :: jsstring
  middleName :: jsstring
  lastName :: jsstring

text \<open>\<open>[A-Z][a-zA-Z'-]+\<close> and \<open>[A-Z][a-zA-Z'-]+(?:\s+[A-Z][a-zA-Z'-]+){1,3}\<close>\<close>

definition name_word :: regex where
  [ev]: "name_word = Seq (Cls False [upper_az])
     (many1 (Cls False [lower_az, upper_az, apostrophe, ch CHR ''-'']))"

definition name_words :: regex where
  [ev]: "name_words = Seq name_word (Rep 1 (Some 3) True (Seq (many1 sp) name_word))"

definition labeledNameRegex :: regex where
  [ev]: "labeledNameRegex = Seq
     (alts [seqs [WordB, word ''name'', many sp, maybe (chr CHR '':''), many sp],
            seqs [WordB, word ''full'', many1 sp, word ''name'', many sp, maybe (chr CHR '':''), many sp],
            seqs [WordB, word ''resume'', many1 sp, word ''of'', many1 sp],
            seqs [WordB, word ''cv'', many1 sp, word ''of'', many1 sp]])
     (Grp 1 name_words)"

definition firstLineRegex :: regex where
  [ev]: "firstLineRegex = seqs [Bol, Grp 1 name_words, Eol]"

definition contactNameRegex :: regex where
  [ev]: "contactNameRegex = seqs [Grp 1 name_words, many sp, Alt (Chr 10) Eol]"

definition fallbackRegex :: regex where
  [ev]: "fallbackRegex = seqs [Grp 1 name_word, many1 sp,
     maybe (Seq (Grp 2 name_word) (many1 sp)), Grp 3 name_word]"

text \<open>
  \<open>parseFullName\<close>. The split of a trimmed text at white space has at least one piece,
  so the case of no piece is never reached.
\<close>

definition parseFullName :: "jsstring \<Rightarrow> name_info" where
  [ev]: "parseFullName fullName =
     (case split_regex re_plain (many1 sp) (trim fullName) of
        [] \<Rightarrow> \<lparr>firstName = [], middleName = [], lastName = []\<rparr>
      | [a] \<Rightarrow> \<lparr>firstName = a, middleName = [], lastName = []\<rparr>
      | [a, b] \<Rightarrow> \<lparr>firstName = a, middleName = [], lastName = b\<rparr>
      | a # b # c # ds \<Rightarrow>
          \<lparr>firstName = a, middleName = join (str '' '') (butlast (b # c # ds)),
           lastName = last (b # c # ds)\<rparr>)"

definition contactHeaders :: "jsstring list" where
  [ev]: "contactHeaders = map str [''contact'', ''personal information'', ''personal details'']"

definition fallback_name :: "jsmatch \<Rightarrow> name_info" where
  [ev]: "fallback_name m =
     \<lparr>firstName = grp m 1, middleName = grp m 2,
      lastName = (if grp m 3 \<noteq> [] then grp m 3 else grp m 2)\<rparr>"

definition name_fallback :: "jsstring \<Rightarrow> name_info" where
  [ev]: "name_fallback text =
     (case regex_match re_plain fallbackRegex text of
        Some m \<Rightarrow> fallback_name m
      | None \<Rightarrow> \<lparr>firstName = [], middleName = [], lastName = []\<rparr>)"

definition name_from_contact :: "jsstring \<Rightarrow> name_info" where
  [ev]: "name_from_contact text =
     (if extractSection text contactHeaders = [] then name_fallback text
      else (case regex_match re_plain contactNameRegex (extractSection text contactHeaders) of
              Some m \<Rightarrow> parseFullName (trim (grp m 1))
            | None \<Rightarrow> name_fallback text))"

definition extractName :: "jsstring \<Rightarrow> name_info" where
  [ev]: "extractName text =
     (case regex_match re_i labeledNameRegex text of
        Some m \<Rightarrow> parseFullName (trim (grp m 1))
      | None \<Rightarrow>
          (case regex_match re_m firstLineRegex text of
             Some m \<Rightarrow> parseFullName (trim (grp m 1))
           | None \<Rightarrow> name_from_contact text))"

section \<open>Contact\<close>

definition emailRegex :: regex where
  [ev]: "emailRegex = seqs
     [many1 (Cls False ([lower_az, upper_az, digit_09] @ chars ''._%+-'')), chr CHR ''@'',
      many1 (Cls False ([lower_az, upper_az, digit_09] @ chars ''.-'')), chr CHR ''.'',
      Rep 2 None True (Cls False [lower_az, upper_az])]"

definition extractEmail :: "jsstring \<Rightarrow> jsstring option" where
  [ev]: "extractEmail text = map_option m_whole (regex_match re_plain emailRegex text)"

text \<open>\<open>(?:\+?\d{1,3}[-\.\s]?)?\(?\d{3}\)?[-\.\s]?\d{3}[-\.\s]?\d{4}\<close>\<close>

definition phone_sep :: regex where
  [ev]: "phone_sep = maybe (Cls False [ch CHR ''-'', ch CHR ''.'', CSpace])"

definition phone_core :: regex where
  [ev]: "phone_core = seqs
     [maybe (seqs [maybe (chr CHR ''+''), Rep 1 (Some 3) True dg, phone_sep]),
      maybe (chr CHR ''(''), Rep 3 (Some 3) True dg, maybe (chr CHR '')''), phone_sep,
      Rep 3 (Some 3) True dg, phone_sep, Rep 4 (Some 4) True dg]"

definition extractPhone :: "jsstring \<Rightarrow> jsstring option" where
  [ev]: "extractPhone text =
     labeled_or_plain (Seq (label [''phone'', ''mobile'', ''cell'', ''contact'', ''tel'']) (Grp 1 phone_core))
       phone_core text"

definition linkedin_url :: regex where
  [ev]: "linkedin_url = seqs [scheme_opt, www_opt, word ''linkedin.com/in/'', slug, slug_path]"

definition extractLinkedIn :: "jsstring \<Rightarrow> jsstring option" where
  [ev]: "extractLinkedIn text =
     map_option ensure_https
       (labeled_or_plain (Seq (label [''linkedin'', ''profile'', ''social'']) (Grp 1 linkedin_url))
          linkedin_url text)"

definition github_url :: regex where
  [ev]: "github_url = seqs [scheme_opt, www_opt, word ''github.com/'', slug, slug_path]"

definition extractGithubUrl :: "jsstring \<Rightarrow> jsstring option" where
  [ev]: "extractGithubUrl text =
     map_option ensure_https
       (labeled_or_plain
          (Seq (label [''github'', ''git'', ''repo'', ''repository'', ''code'']) (Grp 1 github_url))
          github_url text)"

text \<open>
  The two portfolio patterns. Only the second has the look-ahead
  \<open>(?!linkedin\.com|github\.com)\<close>, after the optional scheme and \<open>www.\<close>.
\<close>

definition portfolio_labeled :: regex where
  [ev]: "portfolio_labeled = Seq
     (label [''portfolio'', ''website'', ''personal site'', ''web'', ''homepage''])
     (Grp 1 (seqs [scheme_opt, www_opt, host_path]))"

definition portfolio_plain :: regex where
  [ev]: "portfolio_plain = seqs
     [scheme_opt, www_opt, NLook (Alt (word ''linkedin.com'') (word ''github.com'')),
      host_path, chr CHR ''/'', many path_char]"

definition extractPortfolioUrl :: "jsstring \<Rightarrow> jsstring option" where
  [ev]: "extractPortfolioUrl text =
     map_option ensure_https (labeled_or_plain portfolio_labeled portfolio_plain text)"

definition addressRegex :: regex where
  [ev]: "addressRegex = Seq (label [''address'', ''location'', ''residence'']) (Grp 1 (many1 not_nl))"

text \<open>\<open>([A-Za-z\s]+),\s*([A-Za-z]{2})\s*(\d{5}(?:-\d{4})?)\<close>\<close>

definition cityStateRegex :: regex where
  [ev]: "cityStateRegex = seqs
     [Grp 1 (many1 (Cls False [upper_az, lower_az, CSpace])), chr CHR '','', many sp,
      Grp 2 (Rep 2 (Some 2) True (Cls False [upper_az, lower_az])), many sp,
      Grp 3 (Seq (Rep 5 (Some 5) True dg) (maybe (Seq (chr CHR ''-'') (Rep 4 (Some 4) True dg))))]"

definition address_in :: "jsstring \<Rightarrow> jsstring option" where
  [ev]: "address_in contactSection =
     (case regex_match re_i addressRegex contactSection of
        Some m \<Rightarrow> Some (trim (grp m 1))
      | None \<Rightarrow> map_option (\<lambda>m. trim (m_whole m)) (regex_match re_plain cityStateRegex contactSection))"

definition extractAddress :: "jsstring \<Rightarrow> jsstring option" where
  [ev]: "extractAddress text =
     (if extractSection text contactHeaders = [] then None
      else address_in (extractSection text contactHeaders))"

section \<open>Education\<close>

text \<open>\<open>extractPattern(text, regex)\<close>: group 1 of the first match, trimmed, or the empty string.\<close>

definition extractPattern :: "flags \<Rightarrow> regex \<Rightarrow> jsstring \<Rightarrow> jsstring" where
  [ev]: "extractPattern f r text =
     (case regex_match f r text of None \<Rightarrow> [] | Some m \<Rightarrow> trim (grp m 1))"

record education =
  collegeName :: jsstring
  degree :: jsstring
  universityName :: jsstring
  specialization :: jsstring
  graduationYear :: jsstring
  cgpa :: jsstring
  startYear :: jsstring
  endYear :: jsstring
  location :: jsstring

definition educationHeaders :: "jsstring list" where
  [ev]: "educationHeaders = map str
    [''education'', ''academic background'', ''academic qualifications'',
     ''educational qualifications'', ''academic history'', ''academic record'',
     ''academic profile'']"

text \<open>\<open>(?:a|b)\s*:?\s*([^\n,]+)\<close>\<close>

definition field_value :: regex where
  [ev]: "field_value = Grp 1 (many1 (Cls True [nl, ch CHR '','']))"

definition labeled_field :: "string list \<Rightarrow> regex" where
  [ev]: "labeled_field ws = Seq (label ws) field_value"

definition gradYearRegex :: regex where
  [ev]: "gradYearRegex = Seq
     (label [''year'', ''graduated'', ''graduation'', ''completed'', ''class of'', ''completion'',
             ''finished''])
     (Grp 1 (Rep 4 (Some 4) True (Cls False [digit_09])))"

definition cgpaRegex :: regex where
  [ev]: "cgpaRegex = Seq
     (label [''cgpa'', ''gpa'', ''grade'', ''score'', ''percentage'', ''marks''])
     (Grp 1 (Seq (many1 (Cls False [digit_09, ch CHR ''.''])) (maybe (chr CHR ''%''))))"

definition dateRangeRegex :: regex where
  [ev]: "dateRangeRegex = seqs [Grp 1 year4, range_sep, Grp 2 (alts (year4 # open_end))]"

text \<open>
  \<open>[A-Z][a-zA-Z\s]+\<close> and the pattern
  \<open>([A-Z][a-zA-Z\s]+,\s*[A-Z][a-zA-Z\s]+|[A-Z][a-zA-Z\s]+\s*\([A-Z][a-zA-Z\s]+\))\<close>
\<close>

definition place_words :: regex where
  [ev]: "place_words = Seq (Cls False [upper_az]) (many1 (Cls False [lower_az, upper_az, CSpace]))"

definition locationRegex :: regex where
  [ev]: "locationRegex = Grp 1 (Alt
     (seqs [place_words, chr CHR '','', many sp, place_words])
     (seqs [place_words, many sp, chr CHR ''('', place_words, chr CHR '')'']))"

text \<open>\<open>B\.?Tech\<close> and the like: a letter, an optional dot, the rest.\<close>

definition dotted :: "string \<Rightarrow> string \<Rightarrow> regex" where
  [ev]: "dotted a b = seqs [word a, maybe (chr CHR ''.''), word b]"

definition degreeRegex :: regex where
  [ev]: "degreeRegex = seqs
     [WordB,
      Grp 1 (alts
        [dotted ''B'' ''Tech'', dotted ''M'' ''Tech'', dotted ''B'' ''E'', dotted ''M'' ''E'',
         dotted ''B'' ''S'', dotted ''M'' ''S'', dotted ''Ph'' ''D'', dotted ''B'' ''A'',
         dotted ''M'' ''A'', word ''MBA'', word ''PGDM'', word ''Bachelor'', word ''Master'',
         word ''Doctorate'', word ''BSc'', word ''MSc'', word ''BBA'', word ''BCA'', word ''MCA'',
         word ''LLB'', word ''LLM'', word ''MD'', word ''MBBS'']),
      WordB, many (Cls True [nl, ch CHR '','']), maybe (Alt (word ''in'') (word ''of'')), many sp,
      maybe (Grp 2 (many1 (Cls True [nl, ch CHR '',''])))]"

definition yearRegex :: regex where
  [ev]: "yearRegex = seqs
     [WordB, Grp 1 (Alt (Seq (word ''20'') (Rep 2 (Some 2) True dg)) (Seq (word ''19'') (Rep 2 (Some 2) True dg))),
      WordB]"

definition metadataLineRegex :: regex where
  [ev]: "metadataLineRegex = words
     [''degree'', ''year'', ''gpa'', ''grade'', ''score'', ''major'', ''field'', ''specialization'']"

text \<open>\<open>([A-Z][A-Za-z\s&,'.\-]+(?:University|College|Institute|School|Academy|Center|Centre))\<close>\<close>

definition institutionRegex :: regex where
  [ev]: "institutionRegex = Grp 1 (seqs
     [Cls False [upper_az],
      many1 (Cls False ([upper_az, lower_az, CSpace, ch CHR ''&'', ch CHR '','', apostrophe,
                         ch CHR ''.'', ch CHR ''-''])),
      words [''University'', ''College'', ''Institute'', ''School'', ''Academy'', ''Center'', ''Centre'']])"

text \<open>The loop over the lines that looks for the name of an institution.\<close>

fun institution_scan :: "jsstring list \<Rightarrow> jsstring" where
  "institution_scan [] = []"
| "institution_scan (line # ls) =
     (if regex_test re_i metadataLineRegex line then institution_scan ls
      else (case regex_match re_plain institutionRegex line of
              Some m \<Rightarrow> trim (grp m 1)
            | None \<Rightarrow> institution_scan ls))"

definition empty_education :: education where
  [ev]: "empty_education =
     \<lparr>collegeName = [], degree = [], universityName = [], specialization = [],
      graduationYear = [], cgpa = [], startYear = [], endYear = [], location = []\<rparr>"

text \<open>
  The statements of \<open>extractEducation\<close> after the section is found, in their order; each
  takes the record and returns it updated. \<open>now\<close> is \<open>new Date().getFullYear()\<close>.
\<close>

definition edu_labeled :: "jsstring \<Rightarrow> education" where
  [ev]: "edu_labeled sec =
     \<lparr>collegeName = extractPattern re_i (labeled_field [''college'', ''school'', ''institute'', ''institution'']) sec,
      degree = extractPattern re_i (labeled_field [''degree'', ''qualification'', ''program'', ''course'', ''diploma'']) sec,
      universityName = extractPattern re_i (labeled_field [''university'', ''institute'', ''academy'', ''alma mater'']) sec,
      specialization = extractPattern re_i
        (labeled_field [''specialization'', ''major'', ''field'', ''concentration'', ''subject'',
                        ''discipline'', ''focus'']) sec,
      graduationYear = extractPattern re_i gradYearRegex sec,
      cgpa = extractPattern re_i cgpaRegex sec,
      startYear = [], endYear = [], location = []\<rparr>"

definition end_year_of :: "int \<Rightarrow> jsmatch \<Rightarrow> jsstring" where
  [ev]: "end_year_of now m = (if is_open_end (grp m 2) then show_int now else grp m 2)"

definition edu_dates :: "int \<Rightarrow> jsstring \<Rightarrow> education \<Rightarrow> education" where
  [ev]: "edu_dates now sec e =
     (case regex_match re_i dateRangeRegex sec of
        None \<Rightarrow> e
      | Some m \<Rightarrow>
          e\<lparr>startYear := grp m 1, endYear := end_year_of now m,
            graduationYear :=
              (if graduationYear e = [] \<and> end_year_of now m \<noteq> show_int now
               then end_year_of now m else graduationYear e)\<rparr>)"

definition edu_location :: "jsstring \<Rightarrow> education \<Rightarrow> education" where
  [ev]: "edu_location sec e =
     (if extractPattern re_i (labeled_field [''location'', ''city'', ''place'', ''campus'']) sec \<noteq> []
      then e\<lparr>location := extractPattern re_i (labeled_field [''location'', ''city'', ''place'', ''campus'']) sec\<rparr>
      else (case regex_match re_plain locationRegex sec of
              Some m \<Rightarrow> e\<lparr>location := trim (grp m 1)\<rparr>
            | None \<Rightarrow> e\<lparr>location := []\<rparr>))"

definition edu_university_from_college :: "education \<Rightarrow> education" where
  [ev]: "edu_university_from_college e =
     (if universityName e = [] \<and> collegeName e \<noteq> [] then e\<lparr>universityName := collegeName e\<rparr> else e)"

definition edu_degree :: "jsstring \<Rightarrow> education \<Rightarrow> education" where
  [ev]: "edu_degree sec e =
     (if degree e \<noteq> [] then e
      else (case regex_match re_i degreeRegex sec of
              None \<Rightarrow> e
            | Some m \<Rightarrow>
                if grp m 2 \<noteq> [] then e\<lparr>degree := trim (grp m 1), specialization := trim (grp m 2)\<rparr>
                else e\<lparr>degree := trim (grp m 1)\<rparr>))"

definition edu_year :: "jsstring \<Rightarrow> education \<Rightarrow> education" where
  [ev]: "edu_year sec e =
     (if graduationYear e \<noteq> [] then e
      else (case regex_match re_plain yearRegex sec of
              None \<Rightarrow> e
            | Some m \<Rightarrow> e\<lparr>graduationYear := grp m 1\<rparr>))"

definition edu_institution :: "jsstring \<Rightarrow> education \<Rightarrow> education" where
  [ev]: "edu_institution sec e =
     (if universityName e = [] \<and> collegeName e = []
      then e\<lparr>universityName := institution_scan (split_on 10 sec)\<rparr> else e)"

definition extractEducation :: "int \<Rightarrow> jsstring \<Rightarrow> education" where
  [ev]: "extractEducation now text =
     (if extractSection text educationHeaders = [] then empty_education
      else edu_institution (extractSection text educationHeaders)
             (edu_year (extractSection text educationHeaders)
               (edu_degree (extractSection text educationHeaders)
                 (edu_university_from_college
                   (edu_location (extractSection text educationHeaders)
                     (edu_dates now (extractSection text educationHeaders)
                       (edu_labeled (extractSection text educationHeaders))))))))"

section \<open>The education level\<close>

definition intermediateRegex :: regex where
  [ev]: "intermediateRegex = seqs
     [WordB, words [''intermediate'', ''high school'', ''secondary'', ''12th'', ''hsc''], WordB]"

text \<open>\<open>bachelor'?s\<close>, \<open>b\.?tech\<close>, \<open>ph\.?d\<close>, \<open>post[\s-]?graduate\<close>\<close>

definition graduateRegex :: regex where
  [ev]: "graduateRegex = seqs
     [WordB,
      alts [word ''graduate'', seqs [word ''bachelor'', maybe (Chr 39), word ''s''], word ''bachelors'',
            dotted ''b'' ''tech'', dotted ''b'' ''e'', dotted ''b'' ''sc'', dotted ''b'' ''a'',
            dotted ''b'' ''com''],
      WordB]"

definition postGraduateRegex :: regex where
  [ev]: "postGraduateRegex = seqs
     [WordB,
      alts [seqs [word ''post'', maybe (Cls False [CSpace, ch CHR ''-'']), word ''graduate''],
            seqs [word ''master'', maybe (Chr 39), word ''s''], word ''masters'',
            dotted ''m'' ''tech'', dotted ''m'' ''e'', dotted ''m'' ''sc'', dotted ''m'' ''a'',
            dotted ''m'' ''com'', word ''mba'', word ''pgdm'', dotted ''ph'' ''d'', word ''doctorate''],
      WordB]"

definition educationLevelPatterns :: "(string \<times> regex) list" where
  [ev]: "educationLevelPatterns =
     [(''Intermediate'', intermediateRegex), (''Graduate'', graduateRegex),
      (''Post Graduate'', postGraduateRegex)]"

fun first_level :: "(string \<times> regex) list \<Rightarrow> jsstring \<Rightarrow> jsstring option" where
  "first_level [] text = None"
| "first_level ((level, pattern) # ps) text =
     (if regex_test re_i pattern text then Some (str level) else first_level ps text)"

definition levelHeaders :: "jsstring list" where
  [ev]: "levelHeaders = map str [''education'', ''academic background'', ''academic qualifications'']"

definition extractEducationLevel :: "jsstring \<Rightarrow> jsstring" where
  [ev]: "extractEducationLevel text =
     (case first_level educationLevelPatterns text of
        Some level \<Rightarrow> level
      | None \<Rightarrow>
          if extractSection text levelHeaders = [] then []
          else (case first_level educationLevelPatterns (extractSection text levelHeaders) of
                  Some level \<Rightarrow> level
                | None \<Rightarrow> []))"

section \<open>Skills and languages\<close>

text \<open>\<open>(?:\<bullet>|-|\*|\+)\s*([^\<bullet>\-\*\+\n]+)\<close>, with the \<open>g\<close> flag, and \<open>^[\<bullet>\-\*\+\s]+\<close>\<close>

definition bulletedRegex :: regex where
  [ev]: "bulletedRegex = seqs
     [alts [Chr bullet, chr CHR ''-'', chr CHR ''*'', chr CHR ''+''], many sp,
      Grp 1 (many1 (Cls True [CRange bullet bullet, ch CHR ''-'', ch CHR ''*'', ch CHR ''+'', nl]))]"

definition strip_bullet :: "jsstring \<Rightarrow> jsstring" where
  [ev]: "strip_bullet skill =
     trim (replace_first re_plain
       (Seq Bol (many1 (Cls False [CRange bullet bullet, ch CHR ''-'', ch CHR ''*'', ch CHR ''+'', CSpace])))
       skill)"

text \<open>\<open>([^,\n]+(?:,\s*|$))\<close>, with the \<open>g\<close> flag, and \<open>,$\<close>\<close>

definition commaRegex :: regex where
  [ev]: "commaRegex = Grp 1 (Seq (many1 (Cls True [ch CHR '','', nl]))
     (Alt (Seq (chr CHR '','') (many sp)) Eol))"

definition strip_comma :: "jsstring \<Rightarrow> jsstring" where
  [ev]: "strip_comma skill = trim (replace_first re_plain (Seq (chr CHR '','') Eol) skill)"

text \<open>The bodies of the \<open>forEach\<close> loops: each takes the list so far and one item.\<close>

definition add_bulleted :: "jsstring list \<Rightarrow> jsstring \<Rightarrow> jsstring list" where
  [ev]: "add_bulleted acc skill =
     (if strip_bullet skill \<noteq> [] \<and> strip_bullet skill \<notin> set acc then acc @ [strip_bullet skill] else acc)"

definition add_comma :: "jsstring list \<Rightarrow> jsstring \<Rightarrow> jsstring list" where
  [ev]: "add_comma acc skill =
     (if strip_comma skill \<noteq> [] \<and> strip_comma skill \<notin> set acc \<and> length (strip_comma skill) < 50
      then acc @ [strip_comma skill] else acc)"

definition add_line :: "string \<Rightarrow> jsstring list \<Rightarrow> jsstring \<Rightarrow> jsstring list" where
  [ev]: "add_line header acc line =
     (if trim line \<noteq> [] \<and> \<not> str_includes (str header) (lower (trim line)) \<and>
         length (trim line) < 50 \<and> trim line \<notin> set acc
      then acc @ [trim line] else acc)"

definition skillsHeaders :: "jsstring list" where
  [ev]: "skillsHeaders = map str
    [''skills'', ''technical skills'', ''core competencies'', ''key skills'',
     ''professional skills'', ''expertise'', ''proficiencies'', ''qualifications'']"

definition skills_in :: "jsstring \<Rightarrow> jsstring" where
  [ev]: "skills_in sec =
     join (str '', '')
       (dedup (foldl (add_line ''skill'')
                (foldl add_comma
                   (foldl add_bulleted [] (match_global re_plain bulletedRegex sec))
                   (match_global re_plain commaRegex sec))
                (split_on 10 sec)))"

definition extractSkills :: "jsstring \<Rightarrow> jsstring" where
  [ev]: "extractSkills text =
     (if extractSection text skillsHeaders = [] then []
      else skills_in (extractSection text skillsHeaders))"

subsection \<open>Technical skills\<close>

definition technicalHeaders :: "jsstring list" where
  [ev]: "technicalHeaders = map str
    [''technical skills'', ''technical expertise'', ''technical proficiencies'',
     ''programming languages'', ''technologies'', ''tools'', ''software'', ''frameworks'',
     ''development skills'', ''computer skills'', ''technical competencies'',
     ''computational skills'', ''digital skills'', ''it skills'', ''coding skills'',
     ''programming skills'', ''technical tools'', ''development tools'']"

text \<open>
  The loop over the lines: the state is \<open>currentCategory\<close> and \<open>technicalSkills\<close>.
  \<open>[:|-]$\<close> removes the colon or hyphen that ends a category line.
\<close>

definition line_skills :: "jsstring \<Rightarrow> jsstring list" where
  [ev]: "line_skills cleanedLine =
     filter (\<lambda>s. s \<noteq> [])
       (map trim (split_regex re_plain (Alt (chr CHR '','') (chr CHR '';'')) cleanedLine))"

definition category_of :: "jsstring \<Rightarrow> jsstring" where
  [ev]: "category_of cleanedLine =
     trim (replace_first re_plain (Seq (Cls False (chars '':|-'')) Eol) cleanedLine)"

definition tech_line :: "jsstring \<times> jsstring list \<Rightarrow> jsstring \<Rightarrow> jsstring \<times> jsstring list" where
  [ev]: "tech_line st line =
     (if ends_with (str '':'') (trim line) \<or> ends_with (str ''-'') (trim line)
      then (category_of (trim line), snd st)
      else if trim line \<noteq> [] \<and> length (trim line) < 100
      then (if line_skills (trim line) = [] then st
            else if fst st \<noteq> []
            then ([], snd st @ [fst st @ str '': '' @ join (str '', '') (line_skills (trim line))])
            else (fst st, foldl push_new (snd st) (line_skills (trim line))))
      else st)"

text \<open>
  \<open>(\w+(?:\s+\w+)*)\s*[-\<dots>:]\s*(beginner|\<dots>|professional)\<close>, flags \<open>gi\<close>
\<close>

definition proficiencyPattern :: regex where
  [ev]: "proficiencyPattern = seqs
     [Grp 1 (Seq (many1 wd) (many (Seq (many1 sp) (many1 wd)))), many sp,
      Cls False [ch CHR ''-'', CRange ndash ndash, ch CHR '':''], many sp,
      Grp 2 (words [''beginner'', ''intermediate'', ''advanced'', ''expert'', ''proficient'',
                    ''fluent'', ''native'', ''basic'', ''working knowledge'', ''professional''])]"

definition add_proficiency :: "jsstring list \<Rightarrow> jsmatch \<Rightarrow> jsstring list" where
  [ev]: "add_proficiency acc m =
     (if trim (grp m 1) \<noteq> [] \<and> trim (grp m 2) \<noteq> [] \<and>
         trim (grp m 1) @ str '' - '' @ trim (grp m 2) \<notin> set acc
      then acc @ [trim (grp m 1) @ str '' - '' @ trim (grp m 2)] else acc)"

definition commonTech :: "string list" where
  [ev]: "commonTech =
    [''java'', ''python'', ''javascript'', ''js'', ''typescript'', ''ts'', ''c++'', ''c#'',
     ''ruby'', ''php'', ''swift'', ''kotlin'', ''go'', ''rust'', ''html'', ''css'', ''sql'',
     ''nosql'', ''react'', ''angular'', ''vue'', ''node'', ''express'', ''django'', ''flask'',
     ''spring'', ''docker'', ''kubernetes'', ''aws'', ''azure'', ''gcp'', ''git'', ''github'',
     ''gitlab'', ''bitbucket'', ''jira'', ''agile'', ''scrum'', ''machine learning'', ''ml'',
     ''ai'', ''data science'', ''blockchain'']"

text \<open>\<open>\b(java|python|\<dots>|blockchain)\b\<close>, flags \<open>gi\<close>\<close>

definition commonTechPattern :: regex where
  [ev]: "commonTechPattern = seqs [WordB, Grp 1 (words commonTech), WordB]"

text \<open>
  Patterns 1 to 3 on the section: the bulleted items, the lines with their categories,
  the proficiency levels. \<open>None\<close>: the \<open>exec\<close> loop does not end.
\<close>

definition section_skills :: "jsstring \<Rightarrow> jsstring list option" where
  [ev]: "section_skills sec =
     map_option
       (foldl add_proficiency
          (snd (foldl tech_line
                  ([], foldl add_bulleted [] (match_global re_plain bulletedRegex sec))
                  (split_on 10 sec))))
       (exec_loop re_i proficiencyPattern sec)"

text \<open>Pattern 4: the vocabulary, searched in the whole text, lower-cased, without repeats.\<close>

definition vocabulary_scan :: "jsstring \<Rightarrow> jsstring list option" where
  [ev]: "vocabulary_scan text =
     map_option (\<lambda>matches. dedup (map (\<lambda>m. lower (trim (m_whole m))) matches))
       (exec_loop re_i commonTechPattern text)"

definition extractTechnicalSkills :: "jsstring \<Rightarrow> jsstring option" where
  [ev]: "extractTechnicalSkills text =
     (if extractSection text technicalHeaders = [] then Some []
      else (case section_skills (extractSection text technicalHeaders) of
              None \<Rightarrow> None
            | Some technicalSkills \<Rightarrow>
                if technicalSkills = []
                then map_option (join [10]) (vocabulary_scan text)
                else Some (join [10] technicalSkills)))"

subsection \<open>Soft skills\<close>

definition softHeaders :: "jsstring list" where
  [ev]: "softHeaders = map str
    [''soft skills'', ''interpersonal skills'', ''personal skills'', ''professional skills'',
     ''transferable skills'', ''core competencies'', ''strengths'', ''attributes'',
     ''personal attributes'', ''personal qualities'', ''key competencies'',
     ''communication skills'', ''leadership skills'', ''management skills'', ''people skills'',
     ''teamwork skills'']"

definition summaryHeaders :: "jsstring list" where
  [ev]: "summaryHeaders = map str
    [''summary'', ''profile'', ''about me'', ''professional summary'', ''career objective'']"

definition commonSoftSkills :: "string list" where
  [ev]: "commonSoftSkills =
    [''communication'', ''teamwork'', ''leadership'', ''problem solving'', ''critical thinking'',
     ''adaptability'', ''flexibility'', ''time management'', ''organization'', ''creativity'',
     ''interpersonal'', ''negotiation'', ''conflict resolution'', ''decision making'',
     ''emotional intelligence'', ''attention to detail'', ''analytical'', ''presentation'',
     ''public speaking'', ''writing'', ''collaboration'', ''team player'', ''self-motivated'',
     ''proactive'', ''initiative'', ''multitasking'', ''planning'', ''prioritization'',
     ''customer service'', ''client relations'']"

text \<open>\<open>new RegExp(`\\b${w}\\b`, 'i').test(text)\<close> for a word of letters, spaces and hyphens.\<close>

definition has_word :: "jsstring \<Rightarrow> string \<Rightarrow> bool" where
  [ev]: "has_word text w = regex_test re_i (seqs [WordB, word w, WordB]) text"

definition listed_soft_skills :: "jsstring \<Rightarrow> jsstring list" where
  [ev]: "listed_soft_skills text =
     foldl add_comma (foldl add_bulleted [] (match_global re_plain bulletedRegex text))
       (match_global re_plain commaRegex text)"

definition extractSoftSkillsFromText :: "jsstring \<Rightarrow> jsstring" where
  [ev]: "extractSoftSkillsFromText text =
     join (str '', '')
       (dedup (if listed_soft_skills text = []
               then map str (filter (has_word text) commonSoftSkills)
               else listed_soft_skills text))"

definition extractSoftSkills :: "jsstring \<Rightarrow> jsstring" where
  [ev]: "extractSoftSkills text =
     (if extractSection text softHeaders = []
      then (if extractSection text summaryHeaders = [] then []
            else extractSoftSkillsFromText (extractSection text summaryHeaders))
      else extractSoftSkillsFromText (extractSection text softHeaders))"

subsection \<open>Languages\<close>

definition languagesHeaders :: "jsstring list" where
  [ev]: "languagesHeaders = map str
    [''languages'', ''language skills'', ''language proficiency'', ''linguistic skills'',
     ''foreign languages'', ''spoken languages'', ''language competencies'',
     ''multilingual skills'', ''language qualifications'', ''language certificates'']"

text \<open>\<open>[A-Za-z]+(?:\s+[A-Za-z]+)*\<close> and \<open>[-:\<dots>]\<close>\<close>

definition letters :: regex where
  [ev]: "letters = many1 (Cls False [upper_az, lower_az])"

definition language_name :: regex where
  [ev]: "language_name = Seq letters (many (Seq (many1 sp) letters))"

definition level_sep :: regex where
  [ev]: "level_sep = Cls False [ch CHR ''-'', ch CHR '':'', CRange ndash ndash]"

definition languageWithLevel :: regex where
  [ev]: "languageWithLevel = seqs
     [Grp 1 language_name, many sp, level_sep, many sp,
      Grp 2 (many1 (Cls False [upper_az, lower_az, CSpace]))]"

definition cefrPattern :: regex where
  [ev]: "cefrPattern = seqs
     [Grp 1 language_name, many sp, maybe level_sep, many sp, maybe (word ''CEFR''), many sp,
      Grp 2 (words [''A1'', ''A2'', ''B1'', ''B2'', ''C1'', ''C2''])]"

definition levelPattern :: regex where
  [ev]: "levelPattern = seqs
     [Grp 1 language_name, many sp, maybe level_sep, many sp,
      Grp 2 (words [''native'', ''fluent'', ''proficient'', ''advanced'', ''intermediate'',
                    ''beginner'', ''basic'', ''elementary'', ''professional'', ''working'',
                    ''limited''])]"

definition commonLanguages :: "string list" where
  [ev]: "commonLanguages =
    [''English'', ''Spanish'', ''French'', ''German'', ''Chinese'', ''Japanese'', ''Arabic'',
     ''Russian'', ''Portuguese'', ''Italian'']"

definition add_trimmed :: "jsstring list \<Rightarrow> jsstring \<Rightarrow> jsstring list" where
  [ev]: "add_trimmed acc lang = push_new acc (trim lang)"

definition add_cefr :: "jsstring list \<Rightarrow> jsmatch \<Rightarrow> jsstring list" where
  [ev]: "add_cefr acc m = push_new acc (trim (grp m 1) @ str '' - '' @ upper (grp m 2))"

definition add_level :: "jsstring list \<Rightarrow> jsmatch \<Rightarrow> jsstring list" where
  [ev]: "add_level acc m = push_new acc (trim (grp m 1) @ str '' - '' @ trim (grp m 2))"

text \<open>Patterns 1 to 3 of \<open>extractLanguages\<close>, which have no \<open>exec\<close> loop.\<close>

definition listed_languages :: "jsstring \<Rightarrow> jsstring list" where
  [ev]: "listed_languages sec =
     foldl add_trimmed
       (foldl (add_line ''language'')
          (foldl add_bulleted [] (match_global re_plain bulletedRegex sec))
          (split_on 10 sec))
       (match_global re_plain languageWithLevel sec)"

definition languages_in :: "jsstring \<Rightarrow> jsstring \<Rightarrow> jsstring option" where
  [ev]: "languages_in text sec =
     (case exec_loop re_i cefrPattern sec of
        None \<Rightarrow> None
      | Some cefrs \<Rightarrow>
          (case exec_loop re_i levelPattern sec of
             None \<Rightarrow> None
           | Some levels \<Rightarrow>
               Some (join (str '', '')
                 (if foldl add_level (foldl add_cefr (listed_languages sec) cefrs) levels = []
                  then map str (filter (has_word text) commonLanguages)
                  else foldl add_level (foldl add_cefr (listed_languages sec) cefrs) levels))))"

definition extractLanguages :: "jsstring \<Rightarrow> jsstring option" where
  [ev]: "extractLanguages text =
     (if extractSection text languagesHeaders = [] then Some []
      else languages_in text (extractSection text languagesHeaders))"

section \<open>Projects\<close>

record project =
  p_name :: jsstring
  p_description :: jsstring
  p_technologies :: jsstring
  p_githubLink :: jsstring
  p_liveLink :: jsstring
  p_startDate :: jsstring
  p_endDate :: jsstring
  p_role :: jsstring

definition extractGithubProjectUrl :: "jsstring \<Rightarrow> jsstring option" where
  [ev]: "extractGithubProjectUrl text =
     map_option ensure_https
       (labeled_or_plain
          (Seq (label [''github'', ''repository'', ''repo'', ''source code'', ''code'']) (Grp 1 github_url))
          github_url text)"

definition extractLiveProjectUrl :: "jsstring \<Rightarrow> jsstring option" where
  [ev]: "extractLiveProjectUrl text =
     map_option ensure_https
       (labeled_or_plain
          (Seq (label [''live'', ''demo'', ''website'', ''deployed'', ''production'', ''app'',
                       ''application'', ''site'', ''preview''])
               (Grp 1 (seqs [scheme_opt, www_opt, host_path])))
          (seqs [scheme_opt, www_opt, NLook (word ''github.com''), host_path]) text)"

text \<open>
  \<open>(?:role|position|responsibility|title)\s*:?\s*([^\n,]+)\<close> and
  \<open>(?:as|worked as)\s+(?:a|an)?\s+([^\n,\.]+)\<close>, both with the \<open>i\<close> flag
\<close>

definition roleRegexes :: "regex list" where
  [ev]: "roleRegexes =
    [labeled_field [''role'', ''position'', ''responsibility'', ''title''],
     seqs [words [''as'', ''worked as''], many1 sp, maybe (words [''a'', ''an'']), many1 sp,
           Grp 1 (many1 (Cls True [nl, ch CHR '','', ch CHR ''.'']))]]"

definition extractProjectRole :: "jsstring \<Rightarrow> jsstring option" where
  [ev]: "extractProjectRole text =
     map_option (\<lambda>m. trim (grp m 1)) (first_pattern re_i roleRegexes text)"

text \<open>
  What every strategy reads from the text of one project: the two links, the dates, the
  role. \<open>dates\<close> is the text given to \<open>extractDateRange\<close>.
\<close>

definition project_of ::
  "jsstring \<Rightarrow> jsstring \<Rightarrow> jsstring \<Rightarrow> jsstring \<Rightarrow> jsstring \<Rightarrow> project" where
  [ev]: "project_of name description technologies content dates =
     \<lparr>p_name = name, p_description = description, p_technologies = technologies,
      p_githubLink = js_or (extractGithubProjectUrl content) [],
      p_liveLink = js_or (extractLiveProjectUrl content) [],
      p_startDate = startDate (extractDateRange dates),
      p_endDate = endDate (extractDateRange dates),
      p_role = js_or (extractProjectRole content) []\<rparr>"

definition projectsHeaders :: "jsstring list" where
  [ev]: "projectsHeaders = map str
    [''projects'', ''personal projects'', ''academic projects'', ''portfolio'', ''work samples'',
     ''research projects'', ''key projects'', ''notable projects'', ''selected projects'',
     ''academic works'', ''publications'', ''implementations'', ''software projects'']"

subsection \<open>Pattern 1: a labeled project\<close>

text \<open>
  \<open>(?:project|\<dots>)\s*:?\s*([^\n]+)\n([^\n]+)(?:[\s\S]*?(?:technology|\<dots>)\s*:?\s*([^\n]+))?\<close>,
  flags \<open>gi\<close>. \<open>[\s\S]\<close> is every character.
\<close>

definition any_char :: regex where
  [ev]: "any_char = Cls True []"

definition projectPattern1 :: regex where
  [ev]: "projectPattern1 = seqs
     [label [''project'', ''application'', ''portfolio item'', ''publication''],
      Grp 1 (many1 not_nl), Chr 10, Grp 2 (many1 not_nl),
      maybe (seqs [many_lazy any_char,
                   label [''technology'', ''tech stack'', ''tools'', ''languages'', ''framework'', ''library''],
                   Grp 3 (many1 not_nl)])]"

definition project1 :: "jsmatch \<Rightarrow> project" where
  [ev]: "project1 m =
     project_of (trim (grp m 1)) (trim (grp m 2))
       (if grp m 3 \<noteq> [] then trim (grp m 3) else []) (m_whole m) (m_whole m)"

subsection \<open>Pattern 2: bulleted titles\<close>

text \<open>\<open>[\<bullet>\-*]\s*([A-Z][^\n:]+)(?::|\n)\<close> and \<open>[\<bullet>\-*]\s*[A-Z]\<close>, flag \<open>g\<close>\<close>

definition bullet_mark :: regex where
  [ev]: "bullet_mark = Cls False [CRange bullet bullet, ch CHR ''-'', ch CHR ''*'']"

definition projectTitleRegex :: regex where
  [ev]: "projectTitleRegex = seqs
     [bullet_mark, many sp,
      Grp 1 (Seq (Cls False [upper_az]) (many1 (Cls True [nl, ch CHR '':'']))),
      Alt (chr CHR '':'') (Chr 10)]"

definition nextProjectMarker :: regex where
  [ev]: "nextProjectMarker = seqs [bullet_mark, many sp, Cls False [upper_az]]"

definition tech_list :: regex where
  [ev]: "tech_list = Grp 1 (Seq (many1 (Cls True [nl, ch CHR ''.'', ch CHR '','']))
     (many (seqs [many sp, chr CHR '','', many sp, many1 (Cls True [nl, ch CHR ''.'', ch CHR '',''])])))"

definition technologyRegex :: regex where
  [ev]: "technologyRegex = Seq
     (label [''technology'', ''tech stack'', ''tools'', ''languages'', ''built with'',
             ''developed using'', ''implemented with'', ''framework'', ''library'',
             ''technologies used''])
     (Grp 1 (many1 not_nl))"

definition techIndicators :: "regex list" where
  [ev]: "techIndicators =
    [technologyRegex,
     seqs [word ''using'', many1 sp, tech_list],
     seqs [word ''with'', many1 sp, tech_list]]"

text \<open>\<open>endIndex\<close>: the next bullet character, or an earlier next project marker.\<close>

definition next_bullet :: "jsstring \<Rightarrow> nat \<Rightarrow> nat" where
  [ev]: "next_bullet sec startIndex =
     (case index_of [bullet] sec startIndex of Some i \<Rightarrow> i | None \<Rightarrow> length sec)"

definition content_end :: "jsstring \<Rightarrow> nat \<Rightarrow> nat" where
  [ev]: "content_end sec startIndex =
     (case exec_at re_plain nextProjectMarker sec startIndex of
        None \<Rightarrow> next_bullet sec startIndex
      | Some nextMatch \<Rightarrow>
          if m_index nextMatch < next_bullet sec startIndex then m_index nextMatch
          else next_bullet sec startIndex)"

definition project2_of :: "jsstring \<Rightarrow> jsstring \<Rightarrow> project" where
  [ev]: "project2_of projectName projectContent =
     (case first_pattern re_i techIndicators projectContent of
        None \<Rightarrow> project_of projectName projectContent [] projectContent projectContent
      | Some techMatch \<Rightarrow>
          project_of projectName (trim (remove_first (m_whole techMatch) projectContent))
            (trim (grp techMatch 1)) projectContent projectContent)"

definition project2 :: "jsstring \<Rightarrow> jsmatch \<Rightarrow> project" where
  [ev]: "project2 sec m =
     project2_of (trim (grp m 1))
       (trim (substring sec (match_end m) (content_end sec (match_end m))))"

subsection \<open>Pattern 3: blocks between blank lines\<close>

definition techLineRegex :: regex where
  [ev]: "techLineRegex = seqs
     [words [''technology'', ''tech stack'', ''tools'', ''languages'', ''built with'',
             ''developed using'', ''implemented with'', ''using'', ''with'', ''framework'',
             ''library'', ''technologies used''],
      many sp, maybe (chr CHR '':'')]"

text \<open>\<open>lines.findIndex(\<dots>)\<close>, with \<open>None\<close> for -1.\<close>

fun find_index :: "('a \<Rightarrow> bool) \<Rightarrow> 'a list \<Rightarrow> nat \<Rightarrow> nat option" where
  "find_index P [] i = None"
| "find_index P (x # xs) i = (if P x then Some i else find_index P xs (Suc i))"

text \<open>\<open>(?::|-)\s*(.+)$\<close> and \<open>.*?(?::|-)\s*\<close>\<close>

definition technologies_of_line :: "jsstring \<Rightarrow> jsstring" where
  [ev]: "technologies_of_line techLine =
     (case regex_match re_plain
             (seqs [Alt (chr CHR '':'') (chr CHR ''-''), many sp, Grp 1 (many1 dot), Eol]) techLine of
        Some techMatch \<Rightarrow> trim (grp techMatch 1)
      | None \<Rightarrow>
          trim (replace_first re_i
                  (seqs [many_lazy dot, Alt (chr CHR '':'') (chr CHR ''-''), many sp]) techLine))"

definition project3_of :: "jsstring \<Rightarrow> jsstring list \<Rightarrow> project" where
  [ev]: "project3_of block lines =
     (case find_index (regex_test re_i techLineRegex) lines 0 of
        None \<Rightarrow> project_of (trim (hd lines)) (trim (join (str '' '') (drop 1 lines))) [] block block
      | Some techLineIndex \<Rightarrow>
          if 0 < techLineIndex
          then project_of (trim (hd lines))
                 (trim (join (str '' '') (take (techLineIndex - 1) (drop 1 lines))))
                 (technologies_of_line (lines ! techLineIndex)) block block
          else project_of (trim (hd lines)) (trim (join (str '' '') (drop 1 lines))) [] block block)"

definition project3 :: "jsstring \<Rightarrow> project list" where
  [ev]: "project3 block =
     (if trim block \<noteq> [] \<and> 2 \<le> length (split_on 10 block)
      then [project3_of block (split_on 10 block)] else [])"

definition blank_line :: regex where
  [ev]: "blank_line = seqs [Chr 10, many sp, Chr 10]"

definition projects3 :: "jsstring \<Rightarrow> project list" where
  [ev]: "projects3 sec = concat (map project3 (split_regex re_plain blank_line sec))"

subsection \<open>Pattern 4: titles with a date range in parentheses\<close>

definition month_or_open :: regex where
  [ev]: "month_or_open = words
    [''Jan'', ''Feb'', ''Mar'', ''Apr'', ''May'', ''Jun'', ''Jul'', ''Aug'', ''Sep'', ''Oct'', ''Nov'',
     ''Dec'', ''January'', ''February'', ''March'', ''April'', ''May'', ''June'', ''July'',
     ''August'', ''September'', ''October'', ''November'', ''December'', ''Present'', ''Current'',
     ''Now'']"

definition dateProjectRegex :: regex where
  [ev]: "dateProjectRegex = seqs
     [Grp 1 (Seq (Cls False [upper_az]) (many1 not_nl)), many sp, chr CHR ''('', many sp,
      Grp 2 (seqs [month_name, many sp, Rep 4 (Some 4) True dg, many sp,
                   alts [chr CHR ''-'', Chr ndash, Chr mdash], many sp,
                   month_or_open, many sp, Rep 0 (Some 4) True dg]),
      many sp, chr CHR '')'']"

definition project4 :: "jsstring \<Rightarrow> jsstring \<Rightarrow> jsstring \<Rightarrow> project" where
  [ev]: "project4 projectName projectDate projectContent =
     (case regex_match re_i technologyRegex projectContent of
        None \<Rightarrow> project_of projectName (trim (remove_first [] projectContent)) []
                  projectContent projectDate
      | Some techMatch \<Rightarrow>
          project_of projectName (trim (remove_first (m_whole techMatch) projectContent))
            (trim (grp techMatch 1)) projectContent projectDate)"

text \<open>
  The loop \<open>while ((dateMatch = dateProjectRegex.exec(projectsSection)) !== null)\<close>. Its
  body sets \<open>lastIndex\<close> and calls \<open>exec\<close> on the same pattern again: when that second call
  finds a match, \<open>lastIndex\<close> is put back to \<open>startIndex\<close>; when it finds none, \<open>exec\<close> has
  set \<open>lastIndex\<close> to 0 and the body leaves it there. The state of the loop is
  \<open>lastIndex\<close> and the projects pushed so far; \<open>None\<close> is a loop that does not end.
\<close>

definition date_project :: "jsstring \<Rightarrow> jsmatch \<Rightarrow> project" where
  [ev]: "date_project sec dateMatch =
     project4 (trim (grp dateMatch 1)) (trim (grp dateMatch 2))
       (trim (substring sec (match_end dateMatch)
          (case exec_at re_i dateProjectRegex sec (match_end dateMatch) of
             Some nextMatch \<Rightarrow> m_index nextMatch
           | None \<Rightarrow> length sec)))"

definition lastIndex_after :: "jsstring \<Rightarrow> jsmatch \<Rightarrow> nat" where
  [ev]: "lastIndex_after sec dateMatch =
     (case exec_at re_i dateProjectRegex sec (match_end dateMatch) of
        Some nextMatch \<Rightarrow> match_end dateMatch
      | None \<Rightarrow> 0)"

partial_function (option) date_projects_loop ::
  "jsstring \<Rightarrow> nat \<Rightarrow> project list \<Rightarrow> project list option" where
  "date_projects_loop sec lastIndex projects =
     (case exec_at re_i dateProjectRegex sec lastIndex of
        None \<Rightarrow> Some projects
      | Some dateMatch \<Rightarrow>
          date_projects_loop sec (lastIndex_after sec dateMatch)
            (projects @ [date_project sec dateMatch]))"

declare date_projects_loop.simps [code]

subsection \<open>The four strategies in order\<close>

definition placeholder_project :: project where
  [ev]: "placeholder_project =
     \<lparr>p_name = str ''Project'', p_description = str ''Please add your project description here'',
      p_technologies = [], p_githubLink = [], p_liveLink = [], p_startDate = [], p_endDate = [],
      p_role = []\<rparr>"

definition strategy2 :: "jsstring \<Rightarrow> project list \<Rightarrow> project list option" where
  [ev]: "strategy2 sec projects =
     (if projects = [] then map_option (map (project2 sec)) (exec_loop re_plain projectTitleRegex sec)
      else Some projects)"

definition strategy3 :: "jsstring \<Rightarrow> project list \<Rightarrow> project list" where
  [ev]: "strategy3 sec projects = (if projects = [] then projects3 sec else projects)"

definition strategy4 :: "jsstring \<Rightarrow> project list \<Rightarrow> project list option" where
  [ev]: "strategy4 sec projects =
     (if projects = [] then date_projects_loop sec 0 [] else Some projects)"

text \<open>The projects found in the section, before the placeholder is added.\<close>

definition projects_in :: "jsstring \<Rightarrow> project list option" where
  [ev]: "projects_in sec =
     (case exec_loop re_i projectPattern1 sec of
        None \<Rightarrow> None
      | Some ms1 \<Rightarrow>
          (case strategy2 sec (map project1 ms1) of
             None \<Rightarrow> None
           | Some ps2 \<Rightarrow> strategy4 sec (strategy3 sec ps2)))"

definition detected_projects :: "jsstring \<Rightarrow> project list option" where
  [ev]: "detected_projects text =
     (if extractSection text projectsHeaders = [] then Some []
      else projects_in (extractSection text projectsHeaders))"

definition extractProjects :: "jsstring \<Rightarrow> project list option" where
  [ev]: "extractProjects text =
     map_option (\<lambda>projects. if projects = [] then [placeholder_project] else projects)
       (detected_projects text)"

section \<open>Work experience\<close>

text \<open>
  A work experience record. Only the first strategy writes the field \<open>duration\<close>;
  \<open>None\<close> is a record without it.
\<close>

record work_experience =
  w_company :: jsstring
  w_position :: jsstring
  w_startDate :: jsstring
  w_endDate :: jsstring
  w_duration :: "jsstring option"
  w_location :: jsstring
  w_description :: jsstring
  w_responsibilities :: jsstring
  w_achievements :: jsstring

definition experienceHeaders :: "jsstring list" where
  [ev]: "experienceHeaders = map str
    [''experience'', ''work experience'', ''employment history'', ''professional experience'',
     ''work history'', ''career history'', ''professional background'', ''employment record'',
     ''job history'', ''professional appointments'', ''academic positions'',
     ''teaching experience'', ''research experience'', ''industry experience'']"

text \<open>\<open>(?:responsibilities|\<dots>)\s*:?\s*([^\n]+(?:\n[^\n]+)*)\<close> and its sibling, flag \<open>i\<close>\<close>

definition lines_block :: regex where
  [ev]: "lines_block = Grp 1 (Seq (many1 not_nl) (many (Seq (Chr 10) (many1 not_nl))))"

definition responsibilitiesRegex :: regex where
  [ev]: "responsibilitiesRegex = Seq
     (label [''responsibilities'', ''duties'', ''tasks'', ''key responsibilities'']) lines_block"

definition achievementsRegex :: regex where
  [ev]: "achievementsRegex = Seq
     (label [''achievements'', ''accomplishments'', ''key achievements'', ''results'']) lines_block"

definition group1_trimmed :: "jsmatch option \<Rightarrow> jsstring" where
  [ev]: "group1_trimmed m = (case m of None \<Rightarrow> [] | Some x \<Rightarrow> trim (grp x 1))"

definition remove_match :: "jsmatch option \<Rightarrow> jsstring \<Rightarrow> jsstring" where
  [ev]: "remove_match m s = (case m of None \<Rightarrow> s | Some x \<Rightarrow> remove_first (m_whole x) s)"

subsection \<open>Pattern 1: a labeled company\<close>

definition companyLabeledRegex :: regex where
  [ev]: "companyLabeledRegex = Seq
     (label [''company'', ''employer'', ''organization'', ''firm'', ''institution'', ''university'',
             ''college''])
     (Grp 1 (many1 not_nl))"

definition positionLabels :: "string list" where
  [ev]: "positionLabels = [''position'', ''title'', ''role'', ''designation'', ''job title'']"

definition durationLabels :: "string list" where
  [ev]: "durationLabels = [''duration'', ''period'', ''timeframe'']"

definition locationLabels :: "string list" where
  [ev]: "locationLabels = [''location'', ''place'', ''city'', ''site'', ''address'']"

text \<open>
  \<open>description.replace(new RegExp(`(?:\<dots>)\\s*:?\\s*${escapeRegExp(value)}`, 'i'), '')\<close>,
  done when \<open>value\<close> is not empty: the escaped value matches itself.
\<close>

definition remove_labeled :: "string list \<Rightarrow> jsstring \<Rightarrow> jsstring \<Rightarrow> jsstring" where
  [ev]: "remove_labeled labels val description =
     (if val = [] then description
      else replace_first re_i (Seq (label labels) (lit val)) description)"

text \<open>
  \<open>new RegExp(`${startDate}\\s*(?:-|to|\<dots>)\\s*${endDate || 'present|current|now'}`, 'i')\<close>.
  The dates are made of letters, digits, white space and the slash, which stand for
  themselves in a pattern.
\<close>

definition datePattern :: "date_range \<Rightarrow> regex" where
  [ev]: "datePattern d =
     (if endDate d \<noteq> [] then seqs [lit (startDate d), range_sep, lit (endDate d)]
      else alts [seqs [lit (startDate d), range_sep, word ''present''], word ''current'', word ''now''])"

definition remove_dates :: "date_range \<Rightarrow> jsstring \<Rightarrow> jsstring" where
  [ev]: "remove_dates d description =
     (if startDate d \<noteq> [] \<or> endDate d \<noteq> [] then replace_first re_i (datePattern d) description
      else description)"

definition experience1_of :: "jsstring \<Rightarrow> jsstring \<Rightarrow> work_experience" where
  [ev]: "experience1_of company experienceBlock =
     \<lparr>w_company = company,
      w_position = extractPattern re_i (labeled_field positionLabels) experienceBlock,
      w_startDate = startDate (extractDateRange experienceBlock),
      w_endDate = endDate (extractDateRange experienceBlock),
      w_duration = Some (extractPattern re_i (labeled_field durationLabels) experienceBlock),
      w_location = extractPattern re_i (labeled_field locationLabels) experienceBlock,
      w_description =
        trim (remove_match (regex_match re_i achievementsRegex experienceBlock)
          (remove_match (regex_match re_i responsibilitiesRegex experienceBlock)
            (remove_dates (extractDateRange experienceBlock)
              (remove_labeled locationLabels
                 (extractPattern re_i (labeled_field locationLabels) experienceBlock)
                 (remove_labeled durationLabels
                    (extractPattern re_i (labeled_field durationLabels) experienceBlock)
                    (remove_labeled positionLabels
                       (extractPattern re_i (labeled_field positionLabels) experienceBlock)
                       experienceBlock)))))),
      w_responsibilities = group1_trimmed (regex_match re_i responsibilitiesRegex experienceBlock),
      w_achievements = group1_trimmed (regex_match re_i achievementsRegex experienceBlock)\<rparr>"

definition experience1 :: "jsstring \<Rightarrow> jsmatch \<Rightarrow> work_experience" where
  [ev]: "experience1 sec m =
     experience1_of (trim (grp m 1))
       (trim (substring sec (match_end m)
          (case index_of (str ''company'') sec (match_end m) of
             Some i \<Rightarrow> i | None \<Rightarrow> length sec)))"

subsection \<open>Pattern 2: a company followed by a date\<close>

text \<open>
  \<open>[\<bullet>\-*]?\s*([A-Z][^\n,]+)(?:[,\s]+|\s*\(|\s*-\s*)(?:[A-Za-z]+\s+)?(?:(?:19|20)\d{2}|(?:Jan|\<dots>))\<close>,
  flag \<open>g\<close>; the pattern of \<open>nextCompanyMatch\<close> is the same without the group.
\<close>

definition companyDateRegex :: regex where
  [ev]: "companyDateRegex = seqs
     [maybe bullet_mark, many sp,
      Grp 1 (Seq (Cls False [upper_az]) (many1 (Cls True [nl, ch CHR '','']))),
      alts [many1 (Cls False [ch CHR '','', CSpace]), Seq (many sp) (chr CHR ''(''),
            seqs [many sp, chr CHR ''-'', many sp]],
      maybe (Seq letters (many1 sp)),
      Alt year4 month_name]"

text \<open>\<open>^([^\n,]+?)(?:,|\n|\s{2,}|\s+at\s+|\s+in\s+)\<close>, flag \<open>i\<close>\<close>

definition spaced :: "string \<Rightarrow> regex" where
  [ev]: "spaced w = seqs [many1 sp, word w, many1 sp]"

definition positionRegex :: regex where
  [ev]: "positionRegex = seqs
     [Bol, Grp 1 (many1_lazy (Cls True [nl, ch CHR '',''])),
      alts [chr CHR '','', Chr 10, Rep 2 None True sp, spaced ''at'', spaced ''in'']]"

text \<open>\<open>(?:,\s*|\n|\s+at\s+|\s+in\s+)([A-Z][a-zA-Z\s,]+)(?:\.|\n|$)\<close>, flag \<open>i\<close>\<close>

definition placeRegex :: regex where
  [ev]: "placeRegex = seqs
     [alts [Seq (chr CHR '','') (many sp), Chr 10, spaced ''at'', spaced ''in''],
      Grp 1 (Seq (Cls False [upper_az]) (many1 (Cls False [lower_az, upper_az, CSpace, ch CHR '','']))),
      alts [chr CHR ''.'', Chr 10, Eol]]"

text \<open>\<open>[\<bullet>\-*]\s*([^\n\<bullet>\-*]+)\<close>, flag \<open>g\<close>, and \<open>^[\<bullet>\-*]\s*\<close>\<close>

definition bulletPointRegex :: regex where
  [ev]: "bulletPointRegex = seqs
     [bullet_mark, many sp,
      Grp 1 (many1 (Cls True [nl, CRange bullet bullet, ch CHR ''-'', ch CHR ''*'']))]"

definition leading_bullet :: regex where
  [ev]: "leading_bullet = seqs [Bol, bullet_mark, many sp]"

definition bullet_responsibilities :: "jsstring \<Rightarrow> jsstring" where
  [ev]: "bullet_responsibilities block =
     join [10] (map (\<lambda>point. trim (replace_first re_plain leading_bullet point))
                  (match_global re_plain bulletPointRegex block))"

definition responsibilities_of :: "jsstring \<Rightarrow> jsstring" where
  [ev]: "responsibilities_of block =
     (case regex_match re_i responsibilitiesRegex block of
        Some respMatch \<Rightarrow> trim (grp respMatch 1)
      | None \<Rightarrow> bullet_responsibilities block)"

text \<open>
  \<open>new RegExp(`^${escapeRegExp(position)}.*?${startDate}.*?${endDate}.*?${location}`, 'i')\<close>:
  the place is made of letters, white space and commas.
\<close>

definition metadataPattern :: "jsstring \<Rightarrow> date_range \<Rightarrow> jsstring \<Rightarrow> regex" where
  [ev]: "metadataPattern position d place = seqs
     [Bol, lit position, many_lazy dot, lit (startDate d), many_lazy dot, lit (endDate d),
      many_lazy dot, lit place]"

definition description2 :: "jsstring \<Rightarrow> jsstring \<Rightarrow> date_range \<Rightarrow> jsstring \<Rightarrow> jsstring" where
  [ev]: "description2 block position d place =
     (case index_of [10] block 0 of
        Some firstLineEnd \<Rightarrow> trim (substring block firstLineEnd (length block))
      | None \<Rightarrow>
          if position \<noteq> [] \<or> startDate d \<noteq> [] \<or> place \<noteq> []
          then (case regex_match re_i (metadataPattern position d place) block of
                  Some metadataMatch \<Rightarrow>
                    trim (substring block (length (m_whole metadataMatch)) (length block))
                | None \<Rightarrow> block)
          else block)"

text \<open>\<open>description.replace(/^[\<bullet>\-*]\s*/gm, '').trim()\<close>\<close>

definition unbullet :: "jsstring \<Rightarrow> jsstring" where
  [ev]: "unbullet description = trim (replace_all re_m leading_bullet description)"

text \<open>
  The end of patterns 2 and 3: when the description is empty and there are
  responsibilities, their first line becomes the description.
\<close>

definition first_line :: "jsstring \<Rightarrow> jsstring" where
  [ev]: "first_line s = hd (split_on 10 s)"

definition finish_experience ::
  "jsstring \<Rightarrow> jsstring \<Rightarrow> date_range \<Rightarrow> jsstring \<Rightarrow> jsstring \<Rightarrow> jsstring \<Rightarrow> jsstring
     \<Rightarrow> work_experience" where
  [ev]: "finish_experience company position d place description responsibilities achievements =
     (if description = [] \<and> responsibilities \<noteq> [] \<and> first_line responsibilities \<noteq> []
      then \<lparr>w_company = company, w_position = position, w_startDate = startDate d,
            w_endDate = endDate d, w_duration = None, w_location = place,
            w_description = first_line responsibilities,
            w_responsibilities = trim (remove_first (first_line responsibilities) responsibilities),
            w_achievements = achievements\<rparr>
      else \<lparr>w_company = company, w_position = position, w_startDate = startDate d,
            w_endDate = endDate d, w_duration = None, w_location = place,
            w_description = description, w_responsibilities = responsibilities,
            w_achievements = achievements\<rparr>)"

definition experience2_of :: "jsstring \<Rightarrow> jsstring \<Rightarrow> work_experience" where
  [ev]: "experience2_of company block =
     finish_experience company
       (group1_trimmed (regex_match re_i positionRegex block))
       (extractDateRange block)
       (group1_trimmed (regex_match re_i placeRegex block))
       (unbullet (description2 block
          (group1_trimmed (regex_match re_i positionRegex block))
          (extractDateRange block)
          (group1_trimmed (regex_match re_i placeRegex block))))
       (responsibilities_of block)
       (group1_trimmed (regex_match re_i achievementsRegex block))"

definition experience2 :: "jsstring \<Rightarrow> jsmatch \<Rightarrow> work_experience" where
  [ev]: "experience2 sec m =
     experience2_of (trim (grp m 1))
       (trim (substring sec (match_end m)
          (case exec_at re_plain companyDateRegex sec (match_end m) of
             Some nextMatch \<Rightarrow> m_index nextMatch
           | None \<Rightarrow> length sec)))"

subsection \<open>Pattern 3: blocks between blank lines\<close>

text \<open>\<open>(.+?)\s+(?:at|@)\s+(.+)\<close> and \<open>(.+?)\s*[-\<dots>]\s*(.+)\<close>, flag \<open>i\<close>\<close>

definition positionAtCompany :: regex where
  [ev]: "positionAtCompany = seqs
     [Grp 1 (many1_lazy dot), many1 sp, Alt (word ''at'') (chr CHR ''@''), many1 sp, Grp 2 (many1 dot)]"

definition companyDashPosition :: regex where
  [ev]: "companyDashPosition = seqs
     [Grp 1 (many1_lazy dot), many sp,
      Cls False [ch CHR ''-'', CRange ndash ndash, CRange mdash mdash], many sp, Grp 2 (many1 dot)]"

definition company_of_line :: "jsstring \<Rightarrow> jsstring" where
  [ev]: "company_of_line firstLine =
     (case regex_match re_i positionAtCompany firstLine of
        Some m \<Rightarrow> trim (grp m 2)
      | None \<Rightarrow> (case regex_match re_i companyDashPosition firstLine of
                   Some m \<Rightarrow> trim (grp m 1)
                 | None \<Rightarrow> firstLine))"

definition position_of_line :: "jsstring \<Rightarrow> jsstring" where
  [ev]: "position_of_line firstLine =
     (case regex_match re_i positionAtCompany firstLine of
        Some m \<Rightarrow> trim (grp m 1)
      | None \<Rightarrow> (case regex_match re_i companyDashPosition firstLine of
                   Some m \<Rightarrow> trim (grp m 2)
                 | None \<Rightarrow> []))"

definition experience3_of :: "jsstring \<Rightarrow> jsstring list \<Rightarrow> work_experience" where
  [ev]: "experience3_of block lines =
     finish_experience (company_of_line (trim (hd lines))) (position_of_line (trim (hd lines)))
       (extractDateRange block)
       (group1_trimmed (regex_match re_i placeRegex block))
       (unbullet (trim (join [10] (drop 1 lines))))
       (responsibilities_of block)
       (group1_trimmed (regex_match re_i achievementsRegex block))"

definition experience3 :: "jsstring \<Rightarrow> work_experience list" where
  [ev]: "experience3 block =
     (if trim block \<noteq> [] \<and> 2 \<le> length (split_on 10 block)
      then [experience3_of block (split_on 10 block)] else [])"

definition experiences3 :: "jsstring \<Rightarrow> work_experience list" where
  [ev]: "experiences3 sec = concat (map experience3 (split_regex re_plain blank_line sec))"

subsection \<open>Pattern 4: academic positions\<close>

definition academicPositionRegex :: regex where
  [ev]: "academicPositionRegex = seqs
     [words [''professor'', ''lecturer'', ''instructor'', ''researcher'', ''fellow'', ''assistant'',
             ''associate'', ''adjunct'', ''postdoc'', ''post-doc'', ''teaching assistant'',
             ''research assistant''],
      many1 sp, words [''at'', ''of'', ''in''], many1 sp, field_value]"

text \<open>\<open>academicMatch[0].split(/\s+(?:at|of|in)\s+/)[0].trim()\<close>: the pattern has no flag.\<close>

definition academic_position :: "jsstring \<Rightarrow> jsstring" where
  [ev]: "academic_position whole =
     (case split_regex re_plain (seqs [many1 sp, words [''at'', ''of'', ''in''], many1 sp]) whole of
        [] \<Rightarrow> []
      | piece # pieces \<Rightarrow> trim piece)"

definition academic_of :: "jsstring \<Rightarrow> jsstring \<Rightarrow> jsstring \<Rightarrow> work_experience" where
  [ev]: "academic_of company position block =
     \<lparr>w_company = company, w_position = position,
      w_startDate = startDate (extractDateRange block),
      w_endDate = endDate (extractDateRange block), w_duration = None,
      w_location = group1_trimmed (regex_match re_i placeRegex block),
      w_description = unbullet block, w_responsibilities = [], w_achievements = []\<rparr>"

definition academic_experience :: "jsstring \<Rightarrow> jsmatch \<Rightarrow> work_experience" where
  [ev]: "academic_experience sec academicMatch =
     academic_of (trim (grp academicMatch 1)) (academic_position (m_whole academicMatch))
       (trim (substring sec (match_end academicMatch)
          (case exec_at re_i academicPositionRegex sec (match_end academicMatch) of
             Some nextMatch \<Rightarrow> m_index nextMatch
           | None \<Rightarrow> length sec)))"

definition academic_lastIndex :: "jsstring \<Rightarrow> jsmatch \<Rightarrow> nat" where
  [ev]: "academic_lastIndex sec academicMatch =
     (case exec_at re_i academicPositionRegex sec (match_end academicMatch) of
        Some nextMatch \<Rightarrow> match_end academicMatch
      | None \<Rightarrow> 0)"

text \<open>The loop has the shape of the loop over \<open>dateProjectRegex\<close>.\<close>

partial_function (option) academic_loop ::
  "jsstring \<Rightarrow> nat \<Rightarrow> work_experience list \<Rightarrow> work_experience list option" where
  "academic_loop sec lastIndex workExperiences =
     (case exec_at re_i academicPositionRegex sec lastIndex of
        None \<Rightarrow> Some workExperiences
      | Some academicMatch \<Rightarrow>
          academic_loop sec (academic_lastIndex sec academicMatch)
            (workExperiences @ [academic_experience sec academicMatch]))"

declare academic_loop.simps [code]

subsection \<open>The four strategies in order\<close>

definition placeholder_experience :: work_experience where
  [ev]: "placeholder_experience =
     \<lparr>w_company = [], w_position = [], w_startDate = [], w_endDate = [], w_duration = None,
      w_location = [], w_description = [], w_responsibilities = [], w_achievements = []\<rparr>"

definition work_strategy2 :: "jsstring \<Rightarrow> work_experience list \<Rightarrow> work_experience list option" where
  [ev]: "work_strategy2 sec ws =
     (if ws = [] then map_option (map (experience2 sec)) (exec_loop re_plain companyDateRegex sec)
      else Some ws)"

definition work_strategy3 :: "jsstring \<Rightarrow> work_experience list \<Rightarrow> work_experience list" where
  [ev]: "work_strategy3 sec ws = (if ws = [] then experiences3 sec else ws)"

definition work_strategy4 :: "jsstring \<Rightarrow> work_experience list \<Rightarrow> work_experience list option" where
  [ev]: "work_strategy4 sec ws = (if ws = [] then academic_loop sec 0 [] else Some ws)"

definition experiences_in :: "jsstring \<Rightarrow> work_experience list option" where
  [ev]: "experiences_in sec =
     (case exec_loop re_i companyLabeledRegex sec of
        None \<Rightarrow> None
      | Some ms1 \<Rightarrow>
          (case work_strategy2 sec (map (experience1 sec) ms1) of
             None \<Rightarrow> None
           | Some ws2 \<Rightarrow> work_strategy4 sec (work_strategy3 sec ws2)))"

definition extractWorkExperience :: "jsstring \<Rightarrow> work_experience list option" where
  [ev]: "extractWorkExperience text =
     map_option (\<lambda>ws. if ws = [] then [placeholder_experience] else ws)
       (if extractSection text experienceHeaders = [] then Some []
        else experiences_in (extractSection text experienceHeaders))"

section \<open>Certifications and years of experience\<close>

definition certificationsHeaders :: "jsstring list" where
  [ev]: "certificationsHeaders = map str [''certifications'', ''certificates'', ''credentials'']"

text \<open>\<open>section.replace(/certifications|certificates|credentials/gi, '').trim()\<close>\<close>

definition extractCertifications :: "jsstring \<Rightarrow> jsstring" where
  [ev]: "extractCertifications text =
     (if extractSection text certificationsHeaders = [] then []
      else trim (replace_all re_i (words [''certifications'', ''certificates'', ''credentials''])
                  (extractSection text certificationsHeaders)))"

text \<open>\<open>(\d+)\+?\s*(?:years|yrs)\s*(?:of)?\s*experience\<close>, flag \<open>i\<close>\<close>

definition experienceRegex :: regex where
  [ev]: "experienceRegex = seqs
     [Grp 1 (many1 dg), maybe (chr CHR ''+''), many sp, words [''years'', ''yrs''], many sp,
      maybe (word ''of''), many sp, word ''experience'']"

text \<open>\<open>(?:19|20)\d{2}\s*-\s*(?:19|20)\d{2}|(?:19|20)\d{2}\s*-\s*present\<close>, flags \<open>gi\<close>\<close>

definition hyphen_sep :: regex where
  [ev]: "hyphen_sep = seqs [many sp, chr CHR ''-'', many sp]"

definition yearRangeRegex :: regex where
  [ev]: "yearRangeRegex = Alt (seqs [year4, hyphen_sep, year4]) (seqs [year4, hyphen_sep, word ''present''])"

definition historyHeaders :: "jsstring list" where
  [ev]: "historyHeaders = map str [''experience'', ''work experience'', ''employment history'']"

text \<open>
  The body of the loop over the year ranges: \<open>years = yearRange.split(/\s*-\s*/)\<close>, and
  \<open>endYear - startYear\<close>. A range matched by the pattern has a hyphen, so the split has
  two pieces; \<open>None\<close> is the \<open>TypeError\<close> of \<open>years[1].toLowerCase()\<close> on a split with
  one piece, which is never reached.
\<close>

definition range_years :: "int \<Rightarrow> jsstring \<Rightarrow> jsnum option" where
  [ev]: "range_years now yearRange =
     (case split_regex re_plain hyphen_sep yearRange of
        first_year # last_year # pieces \<Rightarrow>
          Some (js_sub (if lower last_year = str ''present'' then Num now else parseInt last_year)
                       (parseInt first_year))
      | _ \<Rightarrow> None)"

fun total_years :: "int \<Rightarrow> jsnum \<Rightarrow> jsmatch list \<Rightarrow> jsnum option" where
  "total_years now totalYears [] = Some totalYears"
| "total_years now totalYears (m # matches) =
     (case range_years now (m_whole m) of
        None \<Rightarrow> None
      | Some years \<Rightarrow> total_years now (js_add totalYears years) matches)"

text \<open>
  \<open>calculateExperience\<close>; \<open>now\<close> is \<open>new Date().getFullYear()\<close>. \<open>None\<close>: the call does
  not return.
\<close>

definition years_from_history :: "int \<Rightarrow> jsstring \<Rightarrow> jsnum option" where
  [ev]: "years_from_history now experienceSection =
     (case exec_loop re_i yearRangeRegex experienceSection of
        None \<Rightarrow> None
      | Some matches \<Rightarrow> map_option num_or_zero (total_years now (Num 0) matches))"

definition calculateExperience :: "int \<Rightarrow> jsstring \<Rightarrow> jsnum option" where
  [ev]: "calculateExperience now text =
     (case regex_match re_i experienceRegex text of
        Some m \<Rightarrow> Some (parseInt (grp m 1))
      | None \<Rightarrow> years_from_history now (extractSection text historyHeaders))"

section \<open>The aggregator\<close>

record profile =
  firstName :: jsstring
  middleName :: jsstring
  lastName :: jsstring
  email :: jsstring
  contactNumber :: jsstring
  linkedinUrl :: jsstring
  githubUrl :: jsstring
  portfolioUrl :: jsstring
  address :: jsstring
  collegeName :: jsstring
  degree :: jsstring
  universityName :: jsstring
  specialization :: jsstring
  graduationYear :: jsstring
  startYear :: jsstring
  endYear :: jsstring
  location :: jsstring
  cgpa :: jsstring
  skills :: jsstring
  technicalSkills :: jsstring
  softSkills :: jsstring
  languages :: jsstring
  projects :: "project list"
  workExperiences :: "work_experience list"
  certifications :: jsstring
  experience :: jsnum
  educationLevel :: jsstring

text \<open>
  The object literal of \<open>extractInformation\<close>, given the results of the calls that can
  fail to return. \<open>s || ''\<close> on a string is the string.
\<close>

definition profile_of ::
  "int \<Rightarrow> jsstring \<Rightarrow> jsstring \<Rightarrow> jsstring \<Rightarrow> project list \<Rightarrow> work_experience list \<Rightarrow> jsnum
     \<Rightarrow> profile" where
  [ev]: "profile_of now text technical langs projs works years =
     \<lparr>firstName = name_info.firstName (extractName text),
      middleName = name_info.middleName (extractName text),
      lastName = name_info.lastName (extractName text),
      email = js_or (extractEmail text) [],
      contactNumber = js_or (extractPhone text) [],
      linkedinUrl = js_or (extractLinkedIn text) (str ''https://linkedin.com/in/''),
      githubUrl = js_or (extractGithubUrl text) [],
      portfolioUrl = js_or (extractPortfolioUrl text) [],
      address = js_or (extractAddress text) [],
      collegeName = education.collegeName (extractEducation now text),
      degree = education.degree (extractEducation now text),
      universityName = education.universityName (extractEducation now text),
      specialization = education.specialization (extractEducation now text),
      graduationYear = education.graduationYear (extractEducation now text),
      startYear = education.startYear (extractEducation now text),
      endYear = education.endYear (extractEducation now text),
      location = education.location (extractEducation now text),
      cgpa = education.cgpa (extractEducation now text),
      skills = extractSkills text,
      technicalSkills = technical,
      softSkills = extractSoftSkills text,
      languages = langs,
      projects = projs,
      workExperiences = works,
      certifications = extractCertifications text,
      experience = num_or_zero years,
      educationLevel = extractEducationLevel text\<rparr>"

text \<open>
  \<open>extractInformation\<close>: the calls that can fail to return, in the order of the object
  literal. \<open>None\<close>: the parse does not return.
\<close>

definition extractInformation :: "int \<Rightarrow> jsstring \<Rightarrow> profile option" where
  [ev]: "extractInformation now text =
     (case extractTechnicalSkills text of
        None \<Rightarrow> None
      | Some technical \<Rightarrow>
          (case extractLanguages text of
             None \<Rightarrow> None
           | Some langs \<Rightarrow>
               (case extractProjects text of
                  None \<Rightarrow> None
                | Some projs \<Rightarrow>
                    (case extractWorkExperience text of
                       None \<Rightarrow> None
                     | Some works \<Rightarrow>
                         (case calculateExperience now text of
                            None \<Rightarrow> None
                          | Some years \<Rightarrow>
                              Some (profile_of now text technical langs projs works years))))))"

section \<open>Notions used to state the properties\<close>

text \<open>
  What follows the scheme \<open>https://\<close> or \<open>http://\<close> and the prefix \<open>www.\<close> of a URL. The
  parser has no such function.
\<close>

definition strip_scheme :: "jsstring \<Rightarrow> jsstring" where
  [ev]: "strip_scheme url =
     (if starts_with (str ''https://'') url then drop 8 url
      else if starts_with (str ''http://'') url then drop 7 url else url)"

definition strip_www :: "jsstring \<Rightarrow> jsstring" where
  [ev]: "strip_www url = (if starts_with (str ''www.'') url then drop 4 url else url)"

definition url_host :: "jsstring \<Rightarrow> jsstring" where
  [ev]: "url_host url = strip_www (strip_scheme url)"

text \<open>The characters of \<open>[\w-]\<close>.\<close>

definition is_slug :: "jschar \<Rightarrow> bool" where
  [ev]: "is_slug c = (is_word c \<or> c = 45)"

text \<open>
  The spans of the synonyms that match, in the order of the list of synonyms, and the
  choice among them: the first span of 10 characters or more, else the last span, else
  the empty text.
\<close>

definition synonym_spans :: "jsstring \<Rightarrow> jsstring list \<Rightarrow> jsstring list" where
  [ev]: "synonym_spans text hs =
     List.map_filter
       (\<lambda>h. map_option (section_span text h) (first_pattern re_i (headerPatterns h) text)) hs"

definition first_long_or_last :: "jsstring list \<Rightarrow> jsstring" where
  [ev]: "first_long_or_last spans =
     (case find (\<lambda>s. 10 \<le> length s) spans of
        Some s \<Rightarrow> s
      | None \<Rightarrow> if spans = [] then [] else last spans)"

text \<open>
  The characters a name can hold: letters, the apostrophe, the hyphen, and the white
  space between two words.
\<close>

definition is_name_char :: "jschar \<Rightarrow> bool" where
  [ev]: "is_name_char c = (is_upper c \<or> is_lower c \<or> c = 39 \<or> c = 45 \<or> is_space c)"


text \<open>
  The parts of a pattern that consume a character, and those of them that stand inside a
  group. A look-ahead consumes nothing and its groups are reset.
\<close>

fun leaves :: "regex \<Rightarrow> regex list" where
  "leaves (Chr c) = [Chr c]"
| "leaves (Cls neg items) = [Cls neg items]"
| "leaves (Seq a b) = leaves a @ leaves b"
| "leaves (Alt a b) = leaves a @ leaves b"
| "leaves (Rep mn mx g r) = leaves r"
| "leaves (Grp k r) = leaves r"
| "leaves r = []"

fun cap_leaves :: "regex \<Rightarrow> regex list" where
  "cap_leaves (Seq a b) = cap_leaves a @ cap_leaves b"
| "cap_leaves (Alt a b) = cap_leaves a @ cap_leaves b"
| "cap_leaves (Rep mn mx g r) = cap_leaves r"
| "cap_leaves (Grp k r) = leaves r"
| "cap_leaves r = []"
section \<open>Properties of the matcher\<close>

lemma ms_Cons: "ms f r (s # ss) = ms f r [s] @ ms f r ss"
  by (cases r) simp_all

lemma set_ms: "set (ms f r ss) = (\<Union>s\<in>set ss. set (ms f r [s]))"
proof (induction ss)
  case Nil
  show ?case by simp
next
  case (Cons s ss)
  then show ?case using ms_Cons [of f r s ss] by simp
qed

lemma in_ms_Seq: "y \<in> set (ms f (Seq a b) [s]) \<longleftrightarrow> (\<exists>x\<in>set (ms f a [s]). y \<in> set (ms f b [x]))"
  using set_ms [of f b "ms f a [s]"] by simp

lemma in_ms_Alt: "y \<in> set (ms f (Alt a b) [s]) \<longleftrightarrow> y \<in> set (ms f a [s]) \<or> y \<in> set (ms f b [s])"
  by simp

lemma in_ms_Grp: "y \<in> set (ms f (Grp k r) [s]) \<longleftrightarrow> (\<exists>x\<in>set (ms f r [s]). y = bind_cap k (rest s) x)"
  by auto

lemma in_ms_Rep:
  assumes "y \<in> set (ms f (Rep mn mx g r) [s])"
  shows "(y = s \<and> (mx = Some 0 \<or> mn = 0)) \<or>
         (mx \<noteq> Some 0 \<and> (\<exists>x\<in>set (ms f r [clear_caps (groups_of r) s]). progress mn s x \<and>
           y \<in> set (ms f (Rep (mn - 1) (dec_max mx) g r) [x])))"
proof (cases "mx = Some 0")
  case True
  with assms show ?thesis by simp
next
  case False
  with assms have "(y = s \<and> mn = 0) \<or> y \<in> set (ms f (Rep (mn - 1) (dec_max mx) g r)
      (filter (progress mn s) (ms f r [clear_caps (groups_of r) s])))"
    by (auto simp: rep_result_def split: if_splits)
  then show ?thesis
    using False set_ms [of f "Rep (mn - 1) (dec_max mx) g r" "filter (progress mn s) (ms f r [clear_caps (groups_of r) s])"]
    by auto
qed

text \<open>Every result of a match is reached by consuming a prefix of the remaining text.\<close>

lemma step_char_consumes:
  "y \<in> set (step_char ok s) \<Longrightarrow> \<exists>c. rest s = c # rest y"
  by (cases "rest s") (auto simp: step_char_def split: if_splits)

lemma rep0_consumes:
  assumes body: "\<And>s y. y \<in> set (ms f r [s]) \<Longrightarrow> \<exists>w. rest s = w @ rest y"
  shows "y \<in> set (ms f (Rep 0 mx g r) [s]) \<Longrightarrow> \<exists>w. rest s = w @ rest y"
proof (induction "length (rest s)" arbitrary: mx s rule: less_induct)
  case less
  from in_ms_Rep [OF less.prems] show ?case
  proof
    assume "y = s \<and> (mx = Some 0 \<or> (0::nat) = 0)"
    then show ?thesis by simp
  next
    assume "mx \<noteq> Some 0 \<and> (\<exists>x\<in>set (ms f r [clear_caps (groups_of r) s]). progress 0 s x \<and>
           y \<in> set (ms f (Rep (0 - 1) (dec_max mx) g r) [x]))"
    then obtain x where x: "x \<in> set (ms f r [clear_caps (groups_of r) s])" "progress 0 s x"
      "y \<in> set (ms f (Rep 0 (dec_max mx) g r) [x])" by auto
    from body [OF x(1)] obtain w where w: "rest s = w @ rest x" by (auto simp: clear_caps_def)
    have "length (rest x) < length (rest s)"
      using x(2) by (simp add: progress_def)
    from less.hyps [OF this x(3)] obtain v where "rest x = v @ rest y" by blast
    with w show ?thesis by simp
  qed
qed

lemma rep_consumes:
  assumes body: "\<And>s y. y \<in> set (ms f r [s]) \<Longrightarrow> \<exists>w. rest s = w @ rest y"
  shows "y \<in> set (ms f (Rep mn mx g r) [s]) \<Longrightarrow> \<exists>w. rest s = w @ rest y"
proof (induction mn arbitrary: mx s)
  case 0
  with rep0_consumes [OF body] show ?case by blast
next
  case (Suc mn)
  from in_ms_Rep [OF Suc.prems] show ?case
  proof
    assume "y = s \<and> (mx = Some 0 \<or> Suc mn = 0)"
    then show ?thesis by simp
  next
    assume "mx \<noteq> Some 0 \<and> (\<exists>x\<in>set (ms f r [clear_caps (groups_of r) s]). progress (Suc mn) s x \<and>
           y \<in> set (ms f (Rep (Suc mn - 1) (dec_max mx) g r) [x]))"
    then obtain x where x: "x \<in> set (ms f r [clear_caps (groups_of r) s])"
      "y \<in> set (ms f (Rep mn (dec_max mx) g r) [x])" by auto
    from body [OF x(1)] obtain w where w: "rest s = w @ rest x" by (auto simp: clear_caps_def)
    from Suc.IH [OF x(2)] obtain v where "rest x = v @ rest y" by blast
    with w show ?thesis by simp
  qed
qed

lemma ms_consumes: "y \<in> set (ms f r [s]) \<Longrightarrow> \<exists>w. rest s = w @ rest y"
proof (induction r arbitrary: s y)
  case (Chr c)
  then show ?case using step_char_consumes by fastforce
next
  case (Cls neg items)
  then show ?case using step_char_consumes by fastforce
next
  case (Seq a b)
  then show ?case unfolding in_ms_Seq by (metis append.assoc)
next
  case (Rep mn mx g r)
  from rep_consumes [of f r y mn mx g s] Rep show ?case by blast
qed (auto simp: bind_cap_def split: if_splits)


lemma ms_shorter: "y \<in> set (ms f r [s]) \<Longrightarrow> length (rest y) \<le> length (rest s)"
  using ms_consumes [of y f r s] by auto

lemma ms_min_len: "y \<in> set (ms f r [s]) \<Longrightarrow> length (rest y) + min_len r \<le> length (rest s)"
proof (induction r arbitrary: s y)
  case (Chr c)
  then show ?case using step_char_consumes by fastforce
next
  case (Cls neg items)
  then show ?case using step_char_consumes by fastforce
next
  case (Seq a b)
  then show ?case unfolding in_ms_Seq by fastforce
next
  case (Alt a b)
  then show ?case unfolding in_ms_Alt by fastforce
next
  case (Grp k r)
  then show ?case unfolding in_ms_Grp by (fastforce simp: bind_cap_def)
next
  case (Rep mn mx g r)
  from in_ms_Rep [OF Rep.prems] show ?case
  proof
    assume "y = s \<and> (mx = Some 0 \<or> mn = 0)"
    then show ?thesis by auto
  next
    assume "mx \<noteq> Some 0 \<and> (\<exists>x\<in>set (ms f r [clear_caps (groups_of r) s]). progress mn s x \<and>
           y \<in> set (ms f (Rep (mn - 1) (dec_max mx) g r) [x]))"
    then obtain x where x: "x \<in> set (ms f r [clear_caps (groups_of r) s])"
      "y \<in> set (ms f (Rep (mn - 1) (dec_max mx) g r) [x])" by auto
    from Rep.IH [OF x(1)] ms_shorter [OF x(2)] show ?thesis
      by (simp add: clear_caps_def)
  qed
qed (auto split: if_splits)

text \<open>A pattern leaves the groups it does not contain as they were.\<close>

lemma map_of_filter_notin:
  "k \<notin> set ks \<Longrightarrow> map_of (filter (\<lambda>p. fst p \<notin> set ks) xs) k = map_of xs k"
  by (induction xs) auto

lemma map_of_filter_neq:
  "k \<noteq> j \<Longrightarrow> map_of (filter (\<lambda>p. fst p \<noteq> j) xs) k = map_of xs k"
  by (induction xs) auto

lemma cap_clear_caps: "k \<notin> set ks \<Longrightarrow> map_of (caps (clear_caps ks s)) k = map_of (caps s) k"
  by (simp add: clear_caps_def map_of_filter_notin)

lemma cap_bind_cap:
  "map_of (caps (bind_cap j from y)) k =
     (if k = j then Some (take (length from - length (rest y)) from) else map_of (caps y) k)"
  by (simp add: bind_cap_def map_of_filter_neq)

lemma step_char_caps: "y \<in> set (step_char ok s) \<Longrightarrow> caps y = caps s"
  by (cases "rest s") (auto simp: step_char_def split: if_splits)

lemma rep_keeps:
  assumes body: "\<And>s y. y \<in> set (ms f r [s]) \<Longrightarrow> map_of (caps y) k = map_of (caps s) k"
    and k: "k \<notin> set (groups_of r)"
  shows "y \<in> set (ms f (Rep mn mx g r) [s]) \<Longrightarrow> map_of (caps y) k = map_of (caps s) k"
proof (induction "(mn, length (rest s))" arbitrary: mn mx s
    rule: wf_induct_rule [OF wf_inv_image [OF wf_lex_prod [OF wf_less_than wf_less_than], of id]])
  case 1
  from in_ms_Rep [OF "1.prems"] show ?case
  proof
    assume "y = s \<and> (mx = Some 0 \<or> mn = 0)"
    then show ?thesis by simp
  next
    assume "mx \<noteq> Some 0 \<and> (\<exists>x\<in>set (ms f r [clear_caps (groups_of r) s]). progress mn s x \<and>
           y \<in> set (ms f (Rep (mn - 1) (dec_max mx) g r) [x]))"
    then obtain x where x: "x \<in> set (ms f r [clear_caps (groups_of r) s])" "progress mn s x"
      "y \<in> set (ms f (Rep (mn - 1) (dec_max mx) g r) [x])" by auto
    have "((mn - 1, length (rest x)), (mn, length (rest s))) \<in> inv_image (less_than <*lex*> less_than) id"
      using x(2) by (cases mn) (auto simp: progress_def)
    from "1.hyps" [OF this x(3)] body [OF x(1)] cap_clear_caps [OF k] show ?thesis by simp
  qed
qed

lemma ms_keeps:
  "y \<in> set (ms f r [s]) \<Longrightarrow> k \<notin> set (groups_of r) \<Longrightarrow> map_of (caps y) k = map_of (caps s) k"
proof (induction r arbitrary: s y)
  case (Chr c)
  then show ?case using step_char_caps by fastforce
next
  case (Cls neg items)
  then show ?case using step_char_caps by fastforce
next
  case (Seq a b)
  then show ?case unfolding in_ms_Seq by fastforce
next
  case (Alt a b)
  then show ?case unfolding in_ms_Alt by fastforce
next
  case (Grp j r)
  then show ?case unfolding in_ms_Grp by (fastforce simp: cap_bind_cap)
next
  case (Rep mn mx g r)
  from rep_keeps [of f r k y mn mx g s] Rep show ?case by auto
qed (auto split: if_splits)

lemma ms_binds:
  "y \<in> set (ms f r [s]) \<Longrightarrow> binds r k \<Longrightarrow> \<exists>w. map_of (caps y) k = Some w \<and> w \<noteq> []"
proof (induction r arbitrary: s y)
  case (Seq a b)
  from Seq.prems(1) obtain x where x: "x \<in> set (ms f a [s])" "y \<in> set (ms f b [x])"
    unfolding in_ms_Seq by blast
  from Seq.prems(2) show ?case
  proof (elim binds.elims)
  qed (use Seq x ms_keeps [OF x(2), of k] in auto)
next
  case (Alt a b)
  then show ?case unfolding in_ms_Alt by auto
next
  case (Grp j r)
  from Grp.prems(1) obtain x where x: "x \<in> set (ms f r [s])" "y = bind_cap j (rest s) x"
    unfolding in_ms_Grp by blast
  show ?case
  proof (cases "j = k")
    case True
    with Grp.prems(2) have "0 < min_len r" by simp
    with ms_min_len [OF x(1)] have "length (rest x) < length (rest s)" by simp
    then have "take (length (rest s) - length (rest x)) (rest s) \<noteq> []" by auto
    with True x(2) show ?thesis by (simp add: cap_bind_cap)
  next
    case False
    with Grp.prems(2) have "binds r k" by simp
    from Grp.IH [OF x(1) this] False x(2) show ?thesis by (simp add: cap_bind_cap)
  qed
qed auto

text \<open>A match found by the search is a result of the matcher at some state without groups.\<close>

lemma search_from_ms:
  "search_from f r p xs i = Some m \<Longrightarrow>
     \<exists>q ys y. y \<in> set (ms f r [MState q ys []]) \<and> m_caps m = caps y \<and> m_rest m = rest y \<and>
       m_whole m = take (length ys - length (rest y)) ys \<and> length ys \<le> length xs"
proof (induction xs arbitrary: p i)
  case Nil
  then show ?case
    by (cases "ms f r [MState p [] []]") (auto intro!: exI [of _ p] exI [of _ "[]"])
next
  case (Cons c cs)
  show ?case
  proof (cases "ms f r [MState p (c # cs) []]")
    case Nil
    with Cons.prems have "search_from f r (Some c) cs (Suc i) = Some m" by simp
    from Cons.IH [OF this] show ?thesis by fastforce
  next
    case (Cons y ys)
    with Cons.prems show ?thesis
      by (auto intro!: exI [of _ p] exI [of _ "c # cs"] exI [of _ y])
  qed
qed

lemma regex_match_binds:
  assumes "regex_match f r text = Some m" and "binds r k"
  shows "grp m k \<noteq> []"
proof -
  from assms(1) obtain q ys y where y: "y \<in> set (ms f r [MState q ys []])" "m_caps m = caps y"
    unfolding regex_match_def using search_from_ms by blast
  from ms_binds [OF y(1) assms(2)] y(2) show ?thesis by (auto simp: grp_def)
qed

lemma first_pattern_Some:
  "first_pattern f ps text = Some m \<Longrightarrow> \<exists>p\<in>set ps. regex_match f p text = Some m"
  by (induction ps) (auto split: option.splits)

lemma dateRangePatterns_bind:
  "p \<in> set dateRangePatterns \<Longrightarrow> binds p 1 \<and> binds p 2"
  by (auto simp: dateRangePatterns_def year4_def month_year_def slash_year_def range_sep_def
      open_end_def month_name_def words_def word_def str_def many_def many1_def dg_def sp_def chr_def)

lemma date_match_groups:
  assumes "first_pattern re_i dateRangePatterns text = Some m"
  shows "grp m 1 \<noteq> [] \<and> grp m 2 \<noteq> []"
proof -
  from first_pattern_Some [OF assms] obtain p
    where p: "p \<in> set dateRangePatterns" "regex_match re_i p text = Some m" by blast
  from dateRangePatterns_bind [OF p(1)] regex_match_binds [OF p(2)] show ?thesis by blast
qed


text \<open>
  The loop over \<open>dateProjectRegex\<close> does not end when it starts at a match that is the last
  one in the section: \<open>lastIndex\<close> is 0 again after the body, and the loop is where it
  began with one more project pushed.
\<close>

lemma date_loop_diverges:
  assumes e0: "exec_at re_i dateProjectRegex section 0 = Some first"
    and l: "lastIndex_after section first = 0"
  shows "date_projects_loop section 0 ps = None"
proof -
  have "\<not> (sec = section \<and> li = 0)" if "date_projects_loop sec li qs = Some y" for sec li qs y
  proof (rule date_projects_loop.raw_induct [where P = "\<lambda>sec li qs y. \<not> (sec = section \<and> li = 0)", OF _ that])
    fix loop sec li qs y
    assume IH: "\<And>a b c y. loop a b c = Some y \<Longrightarrow> \<not> (a = section \<and> b = 0)"
      and step: "(case exec_at re_i dateProjectRegex sec li of
          None \<Rightarrow> Some qs
        | Some dateMatch \<Rightarrow> loop sec (lastIndex_after sec dateMatch) (qs @ [date_project sec dateMatch])) = Some y"
    show "\<not> (sec = section \<and> li = 0)"
    proof
      assume "sec = section \<and> li = 0"
      with step e0 l have "loop section 0 (qs @ [date_project section first]) = Some y" by simp
      from IH [OF this] show False by simp
    qed
  qed
  then show ?thesis by (cases "date_projects_loop section 0 ps") auto
qed

text \<open>What single characters, literal texts and repetitions of a class consume.\<close>

lemma starts_with_iff: "starts_with p xs \<longleftrightarrow> (\<exists>r. xs = p @ r)"
  by (induction p xs rule: starts_with.induct) auto

lemma clear_caps_Nil: "clear_caps [] s = s"
  by (cases s) (simp add: clear_caps_def)

lemma in_ms_maybe:
  assumes "y \<in> set (ms f (maybe r) [s])"
  shows "y = s \<or> y \<in> set (ms f r [clear_caps (groups_of r) s])"
  using in_ms_Rep [of y f 0 "Some 1" True r s] assms
  by (auto simp: maybe_def dec_max_def)

lemma in_ms_Chr:
  "y \<in> set (ms f (Chr c) [s]) \<Longrightarrow> \<exists>x. rest s = x # rest y \<and> chr_match f c x"
  by (cases "rest s") (auto simp: step_char_def next_char_def split: if_splits)

lemma in_ms_Cls:
  "y \<in> set (ms f (Cls neg items) [s]) \<Longrightarrow> \<exists>x. rest s = x # rest y \<and> cls_match f neg items x"
  by (cases "rest s") (auto simp: step_char_def next_char_def split: if_splits)

lemma ms_lit_consumes:
  "y \<in> set (ms re_plain (lit w) [s]) \<Longrightarrow> rest s = w @ rest y"
proof (induction w arbitrary: s rule: lit.induct)
  case 1
  then show ?case by simp
next
  case (2 c)
  from in_ms_Chr [of y re_plain c s] 2 show ?case
    by (auto simp: chr_match_def re_plain_def)
next
  case (3 c d ds)
  from "3.prems" obtain x where x: "x \<in> set (ms re_plain (Chr c) [s])"
    "y \<in> set (ms re_plain (lit (d # ds)) [x])"
    using in_ms_Seq [of y re_plain "Chr c" "lit (d # ds)" s] by auto
  from in_ms_Chr [OF x(1)] "3.IH" [OF x(2)] show ?case
    by (auto simp: chr_match_def re_plain_def)
qed

lemma ms_lit_none:
  "ms re_plain (lit w) [s] = [] \<Longrightarrow> \<not> starts_with w (rest s)"
proof (induction w arbitrary: s rule: lit.induct)
  case 1
  then show ?case by simp
next
  case (2 c)
  then show ?case
    by (cases "rest s") (auto simp: step_char_def next_char_def chr_match_def re_plain_def split: if_splits)
next
  case (3 c d ds)
  show ?case
  proof (cases "rest s")
    case Nil
    then show ?thesis by simp
  next
    case (Cons x xs)
    show ?thesis
    proof (cases "x = c")
      case True
      with Cons "3.prems" have "ms re_plain (lit (d # ds)) [MState (Some x) xs (caps s)] = []"
        by (simp add: step_char_def next_char_def chr_match_def re_plain_def)
      from "3.IH" [OF this] Cons True show ?thesis by simp
    next
      case False
      with Cons show ?thesis by simp
    qed
  qed
qed

text \<open>A repetition consumes a text made of the texts its body consumes.\<close>

lemma rep_lift:
  assumes body: "\<And>s y. y \<in> set (ms f r [s]) \<Longrightarrow> \<exists>v. rest s = v @ rest y \<and> Q v"
    and nil: "Q []"
    and app: "\<And>u v. Q u \<Longrightarrow> Q v \<Longrightarrow> Q (u @ v)"
  shows "y \<in> set (ms f (Rep mn mx g r) [s]) \<Longrightarrow> \<exists>v. rest s = v @ rest y \<and> Q v"
proof (induction "(mn, length (rest s))" arbitrary: mn mx s
    rule: wf_induct_rule [OF wf_inv_image [OF wf_lex_prod [OF wf_less_than wf_less_than], of id]])
  case 1
  from in_ms_Rep [OF "1.prems"] show ?case
  proof
    assume "y = s \<and> (mx = Some 0 \<or> mn = 0)"
    with nil show ?thesis by simp
  next
    assume "mx \<noteq> Some 0 \<and> (\<exists>x\<in>set (ms f r [clear_caps (groups_of r) s]). progress mn s x \<and>
           y \<in> set (ms f (Rep (mn - 1) (dec_max mx) g r) [x]))"
    then obtain x where x: "x \<in> set (ms f r [clear_caps (groups_of r) s])" "progress mn s x"
      "y \<in> set (ms f (Rep (mn - 1) (dec_max mx) g r) [x])" by auto
    have "((mn - 1, length (rest x)), (mn, length (rest s))) \<in> inv_image (less_than <*lex*> less_than) id"
      using x(2) by (cases mn) (auto simp: progress_def)
    from "1.hyps" [OF this x(3)] obtain v where v: "rest x = v @ rest y" "Q v" by blast
    from body [OF x(1)] obtain u where u: "rest s = u @ rest x" "Q u" by (auto simp: clear_caps_def)
    from u v app show ?thesis by auto
  qed
qed

lemma rep_cls:
  "y \<in> set (ms f (Rep mn mx g (Cls neg items)) [s]) \<Longrightarrow>
     \<exists>v. rest s = v @ rest y \<and> (\<forall>c\<in>set v. cls_match f neg items c)"
proof (rule rep_lift [where Q = "\<lambda>v. \<forall>c\<in>set v. cls_match f neg items c"])
  fix s y
  assume "y \<in> set (ms f (Cls neg items) [s])"
  from in_ms_Cls [OF this] show "\<exists>v. rest s = v @ rest y \<and> (\<forall>c\<in>set v. cls_match f neg items c)"
    by (metis append_Cons append_Nil list.set_cases list.inject list.distinct(1) set_ConsD empty_iff empty_set)
qed auto

text \<open>
  The fallback pattern of the portfolio URL: what a match consumes, and the host of the
  URL made from it.
\<close>

lemma scheme_opt_consumes:
  assumes "y \<in> set (ms re_plain scheme_opt [s])"
  shows "rest s = rest y \<or> rest s = str ''http://'' @ rest y \<or> rest s = str ''https://'' @ rest y"
proof -
  let ?body = "seqs [word ''http'', maybe (chr CHR ''s''), word ''://'']"
  have g: "groups_of ?body = []"
    by (simp add: word_def str_def maybe_def chr_def)
  from in_ms_maybe [of y re_plain ?body s] assms
  consider "y = s" | "y \<in> set (ms re_plain ?body [s])"
    by (auto simp del: ms.simps seqs.simps simp: scheme_opt_def g clear_caps_Nil)
  then show ?thesis
  proof cases
    case 1
    then show ?thesis by simp
  next
    case 2
    then obtain x1 x2 where x: "x1 \<in> set (ms re_plain (word ''http'') [s])"
      "x2 \<in> set (ms re_plain (maybe (chr CHR ''s'')) [x1])"
      "y \<in> set (ms re_plain (word ''://'') [x2])"
      by (auto simp del: ms.simps simp: in_ms_Seq)
    from ms_lit_consumes [of x1 "str ''http''" s] x(1) have a: "rest s = str ''http'' @ rest x1"
      by (simp add: word_def)
    from ms_lit_consumes [of y "str ''://''" x2] x(3) have c: "rest x2 = str ''://'' @ rest y"
      by (simp add: word_def)
    from in_ms_maybe [OF x(2)] have "rest x1 = rest x2 \<or> rest x1 = 115 # rest x2"
      using in_ms_Chr [of x2 re_plain 115 x1]
      by (auto simp: chr_def clear_caps_Nil chr_match_def re_plain_def)
    with a c show ?thesis by (auto simp: str_def)
  qed
qed

lemma www_opt_consumes:
  assumes "y \<in> set (ms re_plain www_opt [s])"
  shows "rest s = rest y \<or> rest s = str ''www.'' @ rest y"
proof -
  have g: "groups_of (word ''www.'') = []"
    by (simp add: word_def str_def)
  from in_ms_maybe [of y re_plain "word ''www.''" s] assms
  have "y = s \<or> y \<in> set (ms re_plain (word ''www.'') [s])"
    by (auto simp del: ms.simps simp: www_opt_def g clear_caps_Nil)
  then show ?thesis
    using ms_lit_consumes [of y "str ''www.''" s] by (auto simp: word_def)
qed

lemma slug_consumes:
  assumes "y \<in> set (ms re_plain slug [s])"
  shows "\<exists>v. rest s = v @ rest y \<and> (\<forall>c\<in>set v. is_slug c)"
proof -
  from assms rep_cls [of y re_plain 1 None True False "[CWord, ch CHR ''-'']" s]
  obtain v where v: "rest s = v @ rest y" "\<forall>c\<in>set v. cls_match re_plain False [CWord, ch CHR ''-''] c"
    by (auto simp: slug_def many1_def)
  have "is_slug c" if "cls_match re_plain False [CWord, ch CHR ''-''] c" for c
    using that by (auto simp: cls_match_def re_plain_def cls_mem_def ch_def is_slug_def)
  with v show ?thesis by blast
qed

lemma tld_consumes:
  assumes "y \<in> set (ms re_plain (Rep 2 None True (Cls False [lower_az])) [s])"
  shows "\<exists>v. rest s = v @ rest y \<and> (\<forall>c\<in>set v. is_lower c)"
proof -
  from assms rep_cls [of y re_plain 2 None True False "[lower_az]" s]
  obtain v where v: "rest s = v @ rest y" "\<forall>c\<in>set v. cls_match re_plain False [lower_az] c"
    by auto
  have "is_lower c" if "cls_match re_plain False [lower_az] c" for c
    using that by (simp add: cls_match_def re_plain_def cls_mem_def lower_az_def rng_def is_lower_def)
  with v show ?thesis by blast
qed

lemma path_tail_consumes:
  assumes x: "x1 \<in> set (ms re_plain (maybe (Seq (chr CHR ''/'') (many path_char))) [s])"
    "x2 \<in> set (ms re_plain (chr CHR ''/'') [x1])" "y \<in> set (ms re_plain (many path_char) [x2])"
  shows "\<exists>t. rest s = 47 # t @ rest y"
proof -
  let ?opt = "Seq (chr CHR ''/'') (many path_char)"
  have g: "groups_of ?opt = []"
    by (simp add: chr_def many_def path_char_def)
  from ms_consumes [OF x(3)] obtain p2 where p2: "rest x2 = p2 @ rest y" by blast
  from in_ms_Chr [of x2 re_plain 47 x1] x(2) have s2: "rest x1 = 47 # rest x2"
    by (auto simp: chr_def chr_match_def re_plain_def)
  from in_ms_maybe [OF x(1)] have "x1 = s \<or> x1 \<in> set (ms re_plain ?opt [s])"
    by (simp del: ms.simps groups_of.simps add: g clear_caps_Nil)
  then show ?thesis
  proof
    assume "x1 = s"
    with s2 p2 show ?thesis by simp
  next
    assume "x1 \<in> set (ms re_plain ?opt [s])"
    then obtain z where z: "z \<in> set (ms re_plain (chr CHR ''/'') [s])"
      "x1 \<in> set (ms re_plain (many path_char) [z])"
      by (auto simp del: ms.simps simp: in_ms_Seq)
    from in_ms_Chr [of z re_plain 47 s] z(1) have a: "rest s = 47 # rest z"
      by (auto simp: chr_def chr_match_def re_plain_def)
    from ms_consumes [OF z(2)] obtain p1 where "rest z = p1 @ rest x1" by blast
    with a s2 p2 have "rest s = 47 # (p1 @ 47 # p2) @ rest y" by simp
    then show ?thesis by blast
  qed
qed

lemma in_ms_NLook: "y \<in> set (ms f (NLook r) [s]) \<Longrightarrow> y = s \<and> ms f r [s] = []"
  by (auto split: if_splits)

lemma look_ahead_passes:
  assumes "ms re_plain (Alt (word ''linkedin.com'') (word ''github.com'')) [s] = []"
  shows "\<not> starts_with (str ''linkedin.com'') (rest s) \<and> \<not> starts_with (str ''github.com'') (rest s)"
proof -
  from assms have "ms re_plain (lit (str ''linkedin.com'')) [s] = []"
    and "ms re_plain (lit (str ''github.com'')) [s] = []"
    by (simp_all add: word_def)
  then show ?thesis using ms_lit_none by blast
qed

lemma portfolio_plain_consumes:
  assumes "y \<in> set (ms re_plain portfolio_plain [s])"
  shows "\<exists>a b sl tld t.
           rest s = a @ b @ (sl @ 46 # tld @ 47 # t) @ rest y \<and>
           (a = [] \<or> a = str ''http://'' \<or> a = str ''https://'') \<and>
           (b = [] \<or> b = str ''www.'') \<and>
           (\<forall>c\<in>set sl. is_slug c) \<and> (\<forall>c\<in>set tld. is_lower c) \<and>
           \<not> starts_with (str ''linkedin.com'') ((sl @ 46 # tld @ 47 # t) @ rest y) \<and>
           \<not> starts_with (str ''github.com'') ((sl @ 46 # tld @ 47 # t) @ rest y)"
proof -
  let ?look = "Alt (word ''linkedin.com'') (word ''github.com'')"
  let ?opt = "maybe (Seq (chr CHR ''/'') (many path_char))"
  from assms obtain x1 x2 x3 x4 x5 where x0:
    "x1 \<in> set (ms re_plain scheme_opt [s])" "x2 \<in> set (ms re_plain www_opt [x1])"
    "x3 \<in> set (ms re_plain (NLook ?look) [x2])" "x4 \<in> set (ms re_plain host_path [x3])"
    "x5 \<in> set (ms re_plain (chr CHR ''/'') [x4])"
    "y \<in> set (ms re_plain (many path_char) [x5])"
    unfolding portfolio_plain_def seqs.simps in_ms_Seq by blast
  from x0(4) obtain xa xb xc where xh:
    "xa \<in> set (ms re_plain slug [x3])" "xb \<in> set (ms re_plain (chr CHR ''.'') [xa])"
    "xc \<in> set (ms re_plain (Rep 2 None True (Cls False [lower_az])) [xb])"
    "x4 \<in> set (ms re_plain ?opt [xc])"
    unfolding host_path_def seqs.simps in_ms_Seq by blast
  note x = x0(1-3) xh x0(5-6)
  from in_ms_NLook [OF x(3)] have x3: "x3 = x2" and look: "ms re_plain ?look [x2] = []" by auto
  from slug_consumes [OF x(4)] x3 obtain sl where sl: "rest x2 = sl @ rest xa" "\<forall>c\<in>set sl. is_slug c"
    by auto
  from in_ms_Chr [of xb re_plain 46 xa] x(5) have dot: "rest xa = 46 # rest xb"
    by (auto simp: chr_def chr_match_def re_plain_def)
  from tld_consumes [OF x(6)] obtain tld where tld: "rest xb = tld @ rest xc" "\<forall>c\<in>set tld. is_lower c"
    by auto
  from path_tail_consumes [OF x(7) x(8) x(9)] obtain t where t: "rest xc = 47 # t @ rest y" by blast
  have host: "rest x2 = (sl @ 46 # tld @ 47 # t) @ rest y"
    using sl(1) dot tld(1) t by simp
  from scheme_opt_consumes [OF x(1)] obtain a where a: "rest s = a @ rest x1"
    "a = [] \<or> a = str ''http://'' \<or> a = str ''https://''" by auto
  from www_opt_consumes [OF x(2)] obtain b where b: "rest x1 = b @ rest x2"
    "b = [] \<or> b = str ''www.''" by auto
  from look_ahead_passes [OF look] host
  have "\<not> starts_with (str ''linkedin.com'') ((sl @ 46 # tld @ 47 # t) @ rest y)"
    and "\<not> starts_with (str ''github.com'') ((sl @ 46 # tld @ 47 # t) @ rest y)" by simp_all
  with a b host sl(2) tld(2) show ?thesis by (metis append.assoc)
qed


lemma not_scheme:
  assumes "\<forall>c\<in>set sl. is_slug c"
  shows "\<not> starts_with (str ''http://'') (sl @ 46 # r)"
    and "\<not> starts_with (str ''https://'') (sl @ 46 # r)"
proof -
  have d: "dropWhile is_slug (sl @ 46 # r) = 46 # r"
    using assms by (simp add: dropWhile_append2 is_slug_def is_word_def is_upper_def is_lower_def is_digit_def)
  show "\<not> starts_with (str ''http://'') (sl @ 46 # r)"
  proof
    assume "starts_with (str ''http://'') (sl @ 46 # r)"
    then obtain q where "sl @ 46 # r = str ''http://'' @ q" unfolding starts_with_iff by blast
    then have "dropWhile is_slug (sl @ 46 # r) = dropWhile is_slug (str ''http://'' @ q)" by simp
    with d show False
      by (simp add: str_def is_slug_def is_word_def is_upper_def is_lower_def is_digit_def)
  qed
  show "\<not> starts_with (str ''https://'') (sl @ 46 # r)"
  proof
    assume "starts_with (str ''https://'') (sl @ 46 # r)"
    then obtain q where "sl @ 46 # r = str ''https://'' @ q" unfolding starts_with_iff by blast
    then have "dropWhile is_slug (sl @ 46 # r) = dropWhile is_slug (str ''https://'' @ q)" by simp
    with d show False
      by (simp add: str_def is_slug_def is_word_def is_upper_def is_lower_def is_digit_def)
  qed
qed

lemma after_www:
  assumes "\<forall>c\<in>set sl. is_slug c" and "starts_with (str ''www.'') (sl @ 46 # r)"
  shows "drop 4 (sl @ 46 # r) = r"
proof -
  have t: "takeWhile is_slug (sl @ 46 # r) = sl"
    using assms(1) by (simp add: takeWhile_append2 is_slug_def is_word_def is_upper_def is_lower_def is_digit_def)
  from assms(2) obtain q where q: "sl @ 46 # r = str ''www.'' @ q" unfolding starts_with_iff by blast
  then have "takeWhile is_slug (sl @ 46 # r) = takeWhile is_slug (str ''www.'' @ q)" by simp
  with t have "sl = [119, 119, 119]"
    by (simp add: str_def is_slug_def is_word_def is_upper_def is_lower_def is_digit_def)
  then show ?thesis by simp
qed

lemma tld_not_domain:
  assumes "\<forall>c\<in>set tld. is_lower c"
  shows "\<not> starts_with (str ''linkedin.com'') (tld @ 47 # t)"
    and "\<not> starts_with (str ''github.com'') (tld @ 47 # t)"
proof -
  have d: "dropWhile is_lower (tld @ 47 # t) = 47 # t"
    using assms by (simp add: dropWhile_append2 is_lower_def)
  show "\<not> starts_with (str ''linkedin.com'') (tld @ 47 # t)"
  proof
    assume "starts_with (str ''linkedin.com'') (tld @ 47 # t)"
    then obtain q where "tld @ 47 # t = str ''linkedin.com'' @ q" unfolding starts_with_iff by blast
    then have "dropWhile is_lower (tld @ 47 # t) = dropWhile is_lower (str ''linkedin.com'' @ q)" by simp
    with d show False by (simp add: str_def is_lower_def)
  qed
  show "\<not> starts_with (str ''github.com'') (tld @ 47 # t)"
  proof
    assume "starts_with (str ''github.com'') (tld @ 47 # t)"
    then obtain q where "tld @ 47 # t = str ''github.com'' @ q" unfolding starts_with_iff by blast
    then have "dropWhile is_lower (tld @ 47 # t) = dropWhile is_lower (str ''github.com'' @ q)" by simp
    with d show False by (simp add: str_def is_lower_def)
  qed
qed

lemma starts_with_append: "starts_with p xs \<Longrightarrow> starts_with p (xs @ ys)"
  unfolding starts_with_iff by auto

lemma host_cases:
  assumes "\<not> starts_with (str ''https://'') c" and "\<not> starts_with (str ''http://'') c"
    and "\<not> starts_with domain c"
    and "starts_with (str ''www.'') c \<longrightarrow> \<not> starts_with domain (drop 4 c)"
    and "a = [] \<or> a = str ''http://'' \<or> a = str ''https://''"
    and "b = [] \<or> b = str ''www.''"
  shows "\<not> starts_with domain (url_host (ensure_https (a @ b @ c)))"
  using assms
  by (auto simp: url_host_def ensure_https_def strip_scheme_def strip_www_def str_def)

text \<open>
  What the look-ahead of the fallback pattern does exclude: a match does not begin, after
  its scheme and \<open>www.\<close>, with \<open>linkedin.com\<close> or \<open>github.com\<close> in small letters.
\<close>

lemma portfolio_fallback_host:
  assumes "regex_match re_i portfolio_labeled text = None"
    and "extractPortfolioUrl text = Some url"
  shows "\<not> starts_with (str ''linkedin.com'') (url_host url) \<and>
         \<not> starts_with (str ''github.com'') (url_host url)"
proof -
  from assms obtain m where m: "regex_match re_plain portfolio_plain text = Some m"
    "url = ensure_https (m_whole m)"
    by (auto simp: extractPortfolioUrl_def labeled_or_plain_def split: option.splits)
  from m(1) obtain q ys y where y: "y \<in> set (ms re_plain portfolio_plain [MState q ys []])"
    "m_whole m = take (length ys - length (rest y)) ys"
    unfolding regex_match_def using search_from_ms by blast
  from portfolio_plain_consumes [OF y(1)] obtain a b sl tld t where d:
    "rest (MState q ys []) = a @ b @ (sl @ 46 # tld @ 47 # t) @ rest y"
    "a = [] \<or> a = str ''http://'' \<or> a = str ''https://''"
    "b = [] \<or> b = str ''www.''"
    "\<forall>c\<in>set sl. is_slug c" "\<forall>c\<in>set tld. is_lower c"
    "\<not> starts_with (str ''linkedin.com'') ((sl @ 46 # tld @ 47 # t) @ rest y)"
    "\<not> starts_with (str ''github.com'') ((sl @ 46 # tld @ 47 # t) @ rest y)"
    by blast
  let ?host = "sl @ 46 # tld @ 47 # t"
  have ys: "ys = (a @ b @ ?host) @ rest y"
    using d(1) by simp
  have w: "m_whole m = a @ b @ ?host"
    unfolding y(2) by (subst (1 2) ys) simp
  have n1: "\<not> starts_with (str ''linkedin.com'') ?host" "\<not> starts_with (str ''github.com'') ?host"
    using d(6,7) starts_with_append by blast+
  have www: "starts_with (str ''www.'') ?host \<longrightarrow> drop 4 ?host = tld @ 47 # t"
    using after_www [OF d(4)] by blast
  have n2: "starts_with (str ''www.'') ?host \<longrightarrow> \<not> starts_with (str ''linkedin.com'') (drop 4 ?host)"
    "starts_with (str ''www.'') ?host \<longrightarrow> \<not> starts_with (str ''github.com'') (drop 4 ?host)"
    using www tld_not_domain [OF d(5)] by auto
  from host_cases [OF not_scheme(2) [OF d(4)] not_scheme(1) [OF d(4)] n1(1) n2(1) d(2) d(3)]
    host_cases [OF not_scheme(2) [OF d(4)] not_scheme(1) [OF d(4)] n1(2) n2(2) d(2) d(3)]
  show ?thesis by (simp add: m(2) w)
qed

text \<open>The loop over the synonyms of the section locator.\<close>

lemma first_pattern_None:
  "first_pattern f ps text = None \<longleftrightarrow> (\<forall>p\<in>set ps. regex_match f p text = None)"
  by (induction ps) (auto split: option.splits)

lemma synonym_spans_Cons:
  "synonym_spans text (h # hs) =
     (case first_pattern re_i (headerPatterns h) text of
        None \<Rightarrow> synonym_spans text hs
      | Some m \<Rightarrow> section_span text h m # synonym_spans text hs)"
  by (simp add: synonym_spans_def List.map_filter_simps split: option.splits)


lemma loop_many:
  assumes "1 < n"
  shows "extractSection_loop text n hs acc =
     (case find (\<lambda>s. 10 \<le> length s) (synonym_spans text hs) of
        Some s \<Rightarrow> s
      | None \<Rightarrow> last (acc # synonym_spans text hs))"
  using assms
proof (induction hs arbitrary: acc)
  case Nil
  then show ?case by (simp add: synonym_spans_def List.map_filter_simps)
next
  case (Cons h hs)
  then show ?case
    by (auto simp: synonym_spans_Cons not_le split: option.splits)
qed

lemma loop_few:
  assumes "length hs \<le> 1"
  shows "extractSection_loop text (length hs) hs [] = first_long_or_last (synonym_spans text hs)"
proof (cases hs)
  case Nil
  then show ?thesis by (simp add: synonym_spans_def List.map_filter_simps first_long_or_last_def)
next
  case (Cons h hs')
  with assms have "hs' = []" by simp
  with Cons show ?thesis
    by (simp add: synonym_spans_Cons synonym_spans_def List.map_filter_simps first_long_or_last_def
        split: option.splits)
qed


















text \<open>
  The text of a group is made of characters that the parts of the pattern inside groups
  accept; the pieces of a split and a trimmed text hold characters of the text.
\<close>

lemma leaves_consume:
  "\<forall>l\<in>set (leaves r). \<forall>s y. y \<in> set (ms f l [s]) \<longrightarrow> (\<exists>c. rest s = c # rest y \<and> P c) \<Longrightarrow>
   y \<in> set (ms f r [s]) \<Longrightarrow> \<exists>u. rest s = u @ rest y \<and> (\<forall>c\<in>set u. P c)"
proof (induction r arbitrary: s y)
  case Eps
  then show ?case by simp
next
  case (Chr c)
  then obtain x where "rest s = x # rest y" "P x" by (auto simp del: ms.simps)
  then have "rest s = [x] @ rest y \<and> (\<forall>c\<in>set [x]. P c)" by simp
  then show ?case by blast
next
  case (Cls neg items)
  then obtain x where "rest s = x # rest y" "P x" by (auto simp del: ms.simps)
  then have "rest s = [x] @ rest y \<and> (\<forall>c\<in>set [x]. P c)" by simp
  then show ?case by blast
next
  case (Seq a b)
  from Seq.prems(2) obtain x where x: "x \<in> set (ms f a [s])" "y \<in> set (ms f b [x])"
    unfolding in_ms_Seq by blast
  from Seq.prems(1)
  have La: "\<forall>l\<in>set (leaves a). \<forall>s y. y \<in> set (ms f l [s]) \<longrightarrow> (\<exists>c. rest s = c # rest y \<and> P c)"
    and Lb: "\<forall>l\<in>set (leaves b). \<forall>s y. y \<in> set (ms f l [s]) \<longrightarrow> (\<exists>c. rest s = c # rest y \<and> P c)"
    by (simp_all add: ball_Un)
  from Seq.IH(1) [OF La x(1)] obtain u where u: "rest s = u @ rest x" "\<forall>c\<in>set u. P c"
    by blast
  from Seq.IH(2) [OF Lb x(2)] obtain v where v: "rest x = v @ rest y" "\<forall>c\<in>set v. P c"
    by blast
  from u v have "rest s = (u @ v) @ rest y \<and> (\<forall>c\<in>set (u @ v). P c)" by auto
  then show ?case by blast
next
  case (Alt a b)
  from Alt.prems(1)
  have La: "\<forall>l\<in>set (leaves a). \<forall>s y. y \<in> set (ms f l [s]) \<longrightarrow> (\<exists>c. rest s = c # rest y \<and> P c)"
    and Lb: "\<forall>l\<in>set (leaves b). \<forall>s y. y \<in> set (ms f l [s]) \<longrightarrow> (\<exists>c. rest s = c # rest y \<and> P c)"
    by (simp_all add: ball_Un)
  from Alt.prems(2) have "y \<in> set (ms f a [s]) \<or> y \<in> set (ms f b [s])"
    unfolding in_ms_Alt .
  with Alt.IH(1) [OF La] Alt.IH(2) [OF Lb] show ?case by blast
next
  case (Rep mn mx g r)
  have body: "\<exists>v. rest s = v @ rest y \<and> (\<forall>c\<in>set v. P c)" if "y \<in> set (ms f r [s])" for s y
    using Rep.IH [OF _ that] Rep.prems(1) by simp
  from rep_lift [where Q = "\<lambda>v. \<forall>c\<in>set v. P c", OF body _ _ Rep.prems(2)] show ?case by auto
next
  case (Grp k r)
  from Grp.prems(2) obtain x where x: "x \<in> set (ms f r [s])" "y = bind_cap k (rest s) x"
    unfolding in_ms_Grp by blast
  from Grp.IH [OF _ x(1)] Grp.prems(1) x(2) show ?case by (simp add: bind_cap_def)
next
  case Bol
  then show ?case by (auto split: if_splits)
next
  case Eol
  then show ?case by (auto split: if_splits)
next
  case WordB
  then show ?case by (auto split: if_splits)
next
  case (NLook r)
  then show ?case by (auto split: if_splits)
qed

lemma cap_leaves_sub: "set (cap_leaves r) \<subseteq> set (leaves r)"
  by (induction r) auto

lemma rep_inv:
  assumes body: "\<And>s y. y \<in> set (ms f r [s]) \<Longrightarrow> I s \<Longrightarrow> I y"
    and clear: "\<And>s. I s \<Longrightarrow> I (clear_caps (groups_of r) s)"
  shows "y \<in> set (ms f (Rep mn mx g r) [s]) \<Longrightarrow> I s \<Longrightarrow> I y"
proof (induction "(mn, length (rest s))" arbitrary: mn mx s
    rule: wf_induct_rule [OF wf_inv_image [OF wf_lex_prod [OF wf_less_than wf_less_than], of id]])
  case 1
  from in_ms_Rep [OF "1.prems"(1)] show ?case
  proof
    assume "y = s \<and> (mx = Some 0 \<or> mn = 0)"
    with "1.prems"(2) show ?thesis by simp
  next
    assume "mx \<noteq> Some 0 \<and> (\<exists>x\<in>set (ms f r [clear_caps (groups_of r) s]). progress mn s x \<and>
           y \<in> set (ms f (Rep (mn - 1) (dec_max mx) g r) [x]))"
    then obtain x where x: "x \<in> set (ms f r [clear_caps (groups_of r) s])" "progress mn s x"
      "y \<in> set (ms f (Rep (mn - 1) (dec_max mx) g r) [x])" by auto
    have "((mn - 1, length (rest x)), (mn, length (rest s))) \<in> inv_image (less_than <*lex*> less_than) id"
      using x(2) by (cases mn) (auto simp: progress_def)
    from "1.hyps" [OF this x(3)] body [OF x(1)] clear [OF "1.prems"(2)] show ?thesis by simp
  qed
qed

lemma caps_leaves:
  "\<forall>l\<in>set (cap_leaves r). \<forall>s y. y \<in> set (ms f l [s]) \<longrightarrow> (\<exists>c. rest s = c # rest y \<and> P c) \<Longrightarrow>
   y \<in> set (ms f r [s]) \<Longrightarrow> \<forall>kv\<in>set (caps s). \<forall>c\<in>set (snd kv). P c \<Longrightarrow>
   \<forall>kv\<in>set (caps y). \<forall>c\<in>set (snd kv). P c"
proof (induction r arbitrary: s y)
  case Eps
  then show ?case by simp
next
  case (Chr c)
  from Chr.prems(2) have "caps y = caps s" using step_char_caps by fastforce
  with Chr.prems(3) show ?case by simp
next
  case (Cls neg items)
  from Cls.prems(2) have "caps y = caps s" using step_char_caps by fastforce
  with Cls.prems(3) show ?case by simp
next
  case (Seq a b)
  from Seq.prems(2) obtain x where x: "x \<in> set (ms f a [s])" "y \<in> set (ms f b [x])"
    unfolding in_ms_Seq by blast
  from Seq.prems(1)
  have La: "\<forall>l\<in>set (cap_leaves a). \<forall>s y. y \<in> set (ms f l [s]) \<longrightarrow> (\<exists>c. rest s = c # rest y \<and> P c)"
    and Lb: "\<forall>l\<in>set (cap_leaves b). \<forall>s y. y \<in> set (ms f l [s]) \<longrightarrow> (\<exists>c. rest s = c # rest y \<and> P c)"
    by (simp_all add: ball_Un)
  from Seq.IH(1) [OF La x(1) Seq.prems(3)]
  have "\<forall>kv\<in>set (caps x). \<forall>c\<in>set (snd kv). P c" .
  from Seq.IH(2) [OF Lb x(2) this] show ?case .
next
  case (Alt a b)
  from Alt.prems(1)
  have La: "\<forall>l\<in>set (cap_leaves a). \<forall>s y. y \<in> set (ms f l [s]) \<longrightarrow> (\<exists>c. rest s = c # rest y \<and> P c)"
    and Lb: "\<forall>l\<in>set (cap_leaves b). \<forall>s y. y \<in> set (ms f l [s]) \<longrightarrow> (\<exists>c. rest s = c # rest y \<and> P c)"
    by (simp_all add: ball_Un)
  from Alt.prems(2) have "y \<in> set (ms f a [s]) \<or> y \<in> set (ms f b [s])"
    unfolding in_ms_Alt .
  then show ?case
  proof
    assume "y \<in> set (ms f a [s])"
    from Alt.IH(1) [OF La this Alt.prems(3)] show ?thesis .
  next
    assume "y \<in> set (ms f b [s])"
    from Alt.IH(2) [OF Lb this Alt.prems(3)] show ?thesis .
  qed
next
  case (Rep mn mx g r)
  let ?I = "\<lambda>s. \<forall>kv\<in>set (caps s). \<forall>c\<in>set (snd kv). P c"
  have body: "?I y" if "y \<in> set (ms f r [s])" "?I s" for s y
    using Rep.IH [OF _ that] Rep.prems(1) by simp
  have clear: "?I (clear_caps (groups_of r) s)" if "?I s" for s
    using that by (auto simp: clear_caps_def)
  from rep_inv [where I = ?I, OF body clear Rep.prems(2) Rep.prems(3)] show ?case by simp
next
  case (Grp k r)
  from Grp.prems(2) obtain x where x: "x \<in> set (ms f r [s])" "y = bind_cap k (rest s) x"
    unfolding in_ms_Grp by blast
  from Grp.prems(1) have L: "\<forall>l\<in>set (leaves r). \<forall>s y. y \<in> set (ms f l [s]) \<longrightarrow> (\<exists>c. rest s = c # rest y \<and> P c)"
    by simp
  with cap_leaves_sub [of r]
  have "\<forall>l\<in>set (cap_leaves r). \<forall>s y. y \<in> set (ms f l [s]) \<longrightarrow> (\<exists>c. rest s = c # rest y \<and> P c)"
    by blast
  from Grp.IH [OF this x(1) Grp.prems(3)] have cx: "\<forall>kv\<in>set (caps x). \<forall>c\<in>set (snd kv). P c" .
  from leaves_consume [OF L x(1)] obtain u where u: "rest s = u @ rest x" "\<forall>c\<in>set u. P c" by blast
  have "take (length (rest s) - length (rest x)) (rest s) = u"
    by (subst (1 2) u(1)) simp
  with cx u(2) x(2) show ?case by (auto simp: bind_cap_def)
next
  case Bol
  then show ?case by (auto split: if_splits)
next
  case Eol
  then show ?case by (auto split: if_splits)
next
  case WordB
  then show ?case by (auto split: if_splits)
next
  case (NLook r)
  then show ?case by (auto split: if_splits)
qed

lemma regex_match_caps:
  assumes "regex_match f r text = Some m"
    and "\<forall>l\<in>set (cap_leaves r). \<forall>s y. y \<in> set (ms f l [s]) \<longrightarrow> (\<exists>c. rest s = c # rest y \<and> P c)"
  shows "\<forall>c\<in>set (grp m k). P c"
proof -
  from assms(1) obtain q ys y where y: "y \<in> set (ms f r [MState q ys []])" "m_caps m = caps y"
    unfolding regex_match_def using search_from_ms by blast
  from caps_leaves [OF assms(2) y(1)] y(2) have c: "\<forall>kv\<in>set (m_caps m). \<forall>c\<in>set (snd kv). P c"
    by simp
  show ?thesis
  proof (cases "map_of (m_caps m) k")
    case None
    then show ?thesis by (simp add: grp_def)
  next
    case (Some w)
    from map_of_SomeD [OF Some] c have "\<forall>c\<in>set w. P c" by auto
    with Some show ?thesis by (simp add: grp_def)
  qed
qed

lemma name_leaf:
  assumes "l \<in> set (leaves name_words)" and "y \<in> set (ms f l [s])"
  shows "\<exists>c. rest s = c # rest y \<and> is_name_char c"
proof -
  from assms(1) obtain items where l: "l = Cls False items"
    "items = [upper_az] \<or> items = [lower_az, upper_az, apostrophe, ch CHR ''-''] \<or> items = [CSpace]"
    by (auto simp: name_words_def name_word_def many1_def sp_def)
  from in_ms_Cls [of y f False items s] assms(2) l(1) obtain x where
    x: "rest s = x # rest y" "cls_match f False items x" by blast
  from x(2) l(2) have "is_name_char x"
    by (auto simp: cls_match_def cls_mem_def upper_az_def lower_az_def apostrophe_def ch_def rng_def
        is_name_char_def is_upper_def is_lower_def to_upper_def to_lower_def split: if_splits)
  with x(1) show ?thesis by blast
qed

lemma cap_leaves_lit: "cap_leaves (lit w) = []"
  by (induction w rule: lit.induct) auto

lemma name_patterns_leaves:
  "set (cap_leaves labeledNameRegex) \<subseteq> set (leaves name_words)"
  "set (cap_leaves firstLineRegex) \<subseteq> set (leaves name_words)"
  "set (cap_leaves contactNameRegex) \<subseteq> set (leaves name_words)"
  "set (cap_leaves fallbackRegex) \<subseteq> set (leaves name_words)"
  by (auto simp: labeledNameRegex_def firstLineRegex_def contactNameRegex_def fallbackRegex_def
      word_def cap_leaves_lit many_def many1_def maybe_def sp_def chr_def name_words_def)

lemma name_match_chars:
  assumes "regex_match f r text = Some m" and "set (cap_leaves r) \<subseteq> set (leaves name_words)"
  shows "\<forall>c\<in>set (grp m k). is_name_char c"
proof (rule regex_match_caps [OF assms(1)])
  show "\<forall>l\<in>set (cap_leaves r). \<forall>s y. y \<in> set (ms f l [s]) \<longrightarrow> (\<exists>c. rest s = c # rest y \<and> is_name_char c)"
    using assms(2) name_leaf by blast
qed

lemma set_trim: "set (trim s) \<subseteq> set s"
  by (auto simp: trim_def dest!: set_dropWhileD)

lemma split_loop_set:
  "piece \<in> set (split_loop f r p xs cur) \<Longrightarrow> set piece \<subseteq> set xs \<union> set cur"
proof (induction f r p xs cur rule: split_loop.induct)
  case (1 f r p cur)
  then show ?case by simp
next
  case (2 f r p c cs cur)
  show ?case
  proof (cases "ms f r [MState p (c # cs) []]")
    case Nil
    with "2.prems" "2.IH"(1) show ?thesis by auto
  next
    case (Cons y ys)
    then have "y \<in> set (ms f r [MState p (c # cs) []])" by simp
    from ms_consumes [OF this] obtain w where w: "c # cs = w @ rest y" by auto
    then have sub: "set (rest y) \<subseteq> set (c # cs)" by (metis set_append Un_upper2)
    show ?thesis
    proof (cases "length (rest y) < length (c # cs)")
      case True
      with Cons "2.prems" have "piece = rev cur \<or> piece \<in> set (split_loop f r (prev y) (rest y) [])"
        by simp
      with "2.IH"(2) [OF Cons True] sub show ?thesis by auto
    next
      case False
      show ?thesis
      proof (cases "cur = []")
        case True
        with False Cons "2.prems" have "piece \<in> set (split_loop f r (Some c) cs [c])" by simp
        from "2.IH"(3) [OF Cons False True this] show ?thesis by auto
      next
        case cur: False
        with False Cons "2.prems" have "piece = rev cur \<or> piece \<in> set (split_loop f r (Some c) cs [c])"
          by simp
        with "2.IH"(4) [OF Cons False cur] show ?thesis by auto
      qed
    qed
  qed
qed

lemma split_regex_set: "piece \<in> set (split_regex f r s) \<Longrightarrow> set piece \<subseteq> set s"
  using split_loop_set [of piece f r None s "[]"]
  by (auto simp: split_regex_def split: if_splits)

lemma set_join: "set (join sep ws) \<subseteq> set sep \<union> (\<Union>w\<in>set ws. set w)"
  by (induction sep ws rule: join.induct) auto

lemma parseFullName_chars:
  "set (name_info.firstName (parseFullName s)) \<union> set (name_info.middleName (parseFullName s)) \<union>
     set (name_info.lastName (parseFullName s)) \<subseteq> set s \<union> {32}"
proof -
  let ?ps = "split_regex re_plain (many1 sp) (trim s)"
  have p: "set piece \<subseteq> set s" if "piece \<in> set ?ps" for piece
    using split_regex_set [OF that] set_trim [of s] by blast
  show ?thesis
  proof (cases ?ps)
    case Nil
    then show ?thesis by (simp add: parseFullName_def)
  next
    case a: (Cons a as)
    show ?thesis
    proof (cases as)
      case Nil
      with a p [of a] show ?thesis by (auto simp: parseFullName_def)
    next
      case b: (Cons b bs)
      show ?thesis
      proof (cases bs)
        case Nil
        with a b p [of a] p [of b] show ?thesis by (auto simp: parseFullName_def)
      next
        case (Cons c ds)
        define mid where "mid = join (str '' '') (butlast (b # c # ds))"
        define lst where "lst = last (b # c # ds)"
        have pf: "parseFullName s =
            \<lparr>name_info.firstName = a, middleName = mid, lastName = lst\<rparr>"
          using a b Cons by (simp add: parseFullName_def mid_def lst_def)
        have "lst \<in> set ?ps"
          unfolding lst_def using a b Cons last_in_set [of "b # c # ds"] by simp
        from p [OF this] have l: "set lst \<subseteq> set s" .
        have "w \<in> set ?ps" if "w \<in> set (butlast (b # c # ds))" for w
          using in_set_butlastD [OF that] a b Cons by simp
        with p have "(\<Union>w\<in>set (butlast (b # c # ds)). set w) \<subseteq> set s" by blast
        moreover have "set (str '' '') = {32}" by (simp add: str_def)
        ultimately have m: "set mid \<subseteq> set s \<union> {32}"
          unfolding mid_def using set_join [of "str '' ''" "butlast (b # c # ds)"] by blast
        from a p [of a] have "set a \<subseteq> set s" by simp
        with l m show ?thesis unfolding pf by auto
      qed
    qed
  qed
qed

lemma parsed_name_chars:
  assumes "\<forall>c\<in>set s. is_name_char c"
  shows "\<forall>c\<in>set (name_info.firstName (parseFullName (trim s))) \<union>
            set (name_info.middleName (parseFullName (trim s))) \<union>
            set (name_info.lastName (parseFullName (trim s))). is_name_char c"
proof -
  have "is_name_char 32" by (simp add: is_name_char_def is_space_def)
  with assms parseFullName_chars [of "trim s"] set_trim [of s] show ?thesis by blast
qed

lemma name_fallback_chars:
  "\<forall>c\<in>set (name_info.firstName (name_fallback text)) \<union>
        set (name_info.middleName (name_fallback text)) \<union>
        set (name_info.lastName (name_fallback text)). is_name_char c"
proof (cases "regex_match re_plain fallbackRegex text")
  case None
  then show ?thesis by (simp add: name_fallback_def)
next
  case (Some m)
  from name_match_chars [OF Some name_patterns_leaves(4)] Some show ?thesis
    by (auto simp: name_fallback_def fallback_name_def)
qed

lemma name_from_contact_chars:
  "\<forall>c\<in>set (name_info.firstName (name_from_contact text)) \<union>
        set (name_info.middleName (name_from_contact text)) \<union>
        set (name_info.lastName (name_from_contact text)). is_name_char c"
proof (cases "regex_match re_plain contactNameRegex (extractSection text contactHeaders)")
  case None
  with name_fallback_chars [of "text"] show ?thesis by (simp add: name_from_contact_def)
next
  case (Some m)
  from parsed_name_chars [OF name_match_chars [OF Some name_patterns_leaves(3), of 1]]
    name_fallback_chars [of "text"] Some
  show ?thesis by (simp add: name_from_contact_def)
qed

text \<open>\<open>parseInt\<close> beyond \<open>2^53\<close>, where not every integer is a Number.\<close>

lemma parseInt_rounds:
  "parseInt (str ''9007199254740993'') = Num 9007199254740992 \<and>
   parseInt (str ''9007199254740995'') = Num 9007199254740996 \<and>
   parseInt (replicate 310 57) = PosInf"
  by code_simp
section \<open>The claims\<close>

text \<open>
  C1. The claim is that the parse of the empty text has every string field empty. The
  object literal gives \<open>linkedinUrl\<close> the default \<open>'https://linkedin.com/in/'\<close>.
\<close>

theorem extractInformation_empty_text_counterexample:
  "map_option linkedinUrl (extractInformation 2026 []) = Some (str ''https://linkedin.com/in/'')"
  by code_simp

text \<open>
  C1, amended. For the empty text the parse returns a record in which every string field
  is empty except \<open>linkedinUrl\<close>, which is \<open>https://linkedin.com/in/\<close>; \<open>experience\<close> is 0;
  \<open>projects\<close> holds one placeholder, named \<open>Project\<close>, with the description
  \<open>Please add your project description here\<close> and its other fields empty; and
  \<open>workExperiences\<close> holds one placeholder with all fields empty.
\<close>

theorem extractInformation_empty_text:
  "extractInformation now [] =
     Some \<lparr>firstName = [], middleName = [], lastName = [], email = [], contactNumber = [],
           linkedinUrl = str ''https://linkedin.com/in/'', githubUrl = [], portfolioUrl = [],
           address = [], collegeName = [], degree = [], universityName = [], specialization = [],
           graduationYear = [], startYear = [], endYear = [], location = [], cgpa = [],
           skills = [], technicalSkills = [], softSkills = [], languages = [],
           projects = [\<lparr>p_name = str ''Project'',
                         p_description = str ''Please add your project description here'',
                         p_technologies = [], p_githubLink = [], p_liveLink = [],
                         p_startDate = [], p_endDate = [], p_role = []\<rparr>],
           workExperiences = [\<lparr>w_company = [], w_position = [], w_startDate = [],
                                w_endDate = [], w_duration = None, w_location = [],
                                w_description = [], w_responsibilities = [],
                                w_achievements = []\<rparr>],
           certifications = [], experience = Num 0, educationLevel = []\<rparr>"
  by code_simp

text \<open>
  C2. The claim is that \<open>calculateExperience\<close> never returns a negative number. On a
  work history with a range whose end is before its start the sum of \<open>endYear - startYear\<close>
  is negative, and \<open>totalYears || 0\<close> returns it.
\<close>

theorem calculateExperience_reversed_range:
  "calculateExperience 2026 (lines_text [''Experience'', ''2020 - 2018'']) = Some (Num (- 2))"
  by code_simp




text \<open>
  C4. The claim is that the placeholder project has the name \<open>Project\<close> and all other
  fields empty. Its description is \<open>Please add your project description here\<close>.
\<close>

theorem extractProjects_placeholder_counterexample:
  "extractProjects (str ''no projects here'') =
     Some [\<lparr>p_name = str ''Project'',
            p_description = str ''Please add your project description here'',
            p_technologies = [], p_githubLink = [], p_liveLink = [],
            p_startDate = [], p_endDate = [], p_role = []\<rparr>]"
  by code_simp

text \<open>
  C4, amended. For every text without a projects section, or in whose projects section
  the four strategies find no project, \<open>extractProjects\<close> returns exactly one placeholder
  record, with the name \<open>Project\<close>, the description
  \<open>Please add your project description here\<close> and its other fields empty.
\<close>

theorem extractProjects_placeholder:
  assumes "extractSection text projectsHeaders = [] \<or>
           projects_in (extractSection text projectsHeaders) = Some []"
  shows "extractProjects text =
     Some [\<lparr>p_name = str ''Project'',
            p_description = str ''Please add your project description here'',
            p_technologies = [], p_githubLink = [], p_liveLink = [],
            p_startDate = [], p_endDate = [], p_role = []\<rparr>]"
  using assms by (auto simp: extractProjects_def detected_projects_def placeholder_project_def)

theorem extractProjects_placeholder_witness:
  "projects_in (extractSection (lines_text [''Projects'', ''nothing here'']) projectsHeaders) = Some [] \<and>
   extractProjects (lines_text [''Projects'', ''nothing here'']) =
     Some [\<lparr>p_name = str ''Project'',
            p_description = str ''Please add your project description here'',
            p_technologies = [], p_githubLink = [], p_liveLink = [],
            p_startDate = [], p_endDate = [], p_role = []\<rparr>]"
proof -
  have h: "projects_in (extractSection (lines_text [''Projects'', ''nothing here'']) projectsHeaders) = Some []"
    by code_simp
  from extractProjects_placeholder [OF disjI2 [OF h]] h show ?thesis by blast
qed


text \<open>
  C5. The claim is that the portfolio URL is never a LinkedIn or GitHub URL, such URLs
  being excluded from the match. The comment on the fallback pattern says that it finds
  URLs that are not LinkedIn or GitHub. Its look-ahead \<open>(?!linkedin\.com|github\.com)\<close>
  fails at the first character of such a host, and the search goes on one character
  further, where the look-ahead holds: a text whose only URL is a LinkedIn profile gives
  that URL without the \<open>l\<close> as the portfolio. The look-ahead also compares the case of the
  letters. The labeled pattern, tried first, has no look-ahead.
\<close>

theorem extractPortfolioUrl_takes_linkedin:
  "extractPortfolioUrl (str ''https://www.linkedin.com/in/janeq'') =
     Some (str ''https://inkedin.com/in/janeq'') \<and>
   extractPortfolioUrl (str ''https://github.com/jane/'') = Some (str ''https://ithub.com/jane/'') \<and>
   extractPortfolioUrl (str ''LinkedIn.com/in/janeq'') = Some (str ''https://LinkedIn.com/in/janeq'') \<and>
   extractPortfolioUrl (str ''portfolio: github.com/jane'') = Some (str ''https://github.com/jane'')"
  by code_simp

text \<open>
  C6. The claim is that an extracted LinkedIn or GitHub URL always carries the prefix
  \<open>https://\<close>. The test \<open>url.startsWith('http')\<close> lets a URL with the scheme \<open>http://\<close>
  through as it is. The example of the claim itself holds.
\<close>

theorem extractLinkedIn_http_kept:
  "extractLinkedIn (str ''http://linkedin.com/in/janeq'') = Some (str ''http://linkedin.com/in/janeq'') \<and>
   extractGithubUrl (str ''http://github.com/janeq'') = Some (str ''http://github.com/janeq'') \<and>
   extractLinkedIn (str ''linkedin: linkedin.com/in/janeq'') = Some (str ''https://linkedin.com/in/janeq'')"
  by code_simp

text \<open>
  C7. The claim is that a text with the line \<open>Jane Q. Public\<close> at its top gives the names
  Jane, Q. and Public. The four name patterns of \<open>extractName\<close> take a word of a name to
  be a letter followed by at least one letter, apostrophe or hyphen (the first letter a
  capital, in any case under the \<open>i\<close> flag of the labeled pattern), so \<open>Q.\<close> is not a
  word of a name: on the text \<open>Jane Q. Public\<close> no pattern matches.
\<close>

theorem extractName_initial_counterexample:
  "extractName (str ''Jane Q. Public'') = \<lparr>name_info.firstName = [], middleName = [], lastName = []\<rparr>"
  by code_simp

text \<open>
  C7, amended. \<open>parseFullName\<close> splits \<open>Jane Q. Public\<close> into Jane, Q. and Public. But
  for every text, the three names that \<open>extractName\<close> returns hold only letters,
  apostrophes, hyphens and white space, and never a full stop: the middle name is never
  \<open>Q.\<close>, whatever the text.
\<close>

theorem extractName_alphabet:
  "parseFullName (str ''Jane Q. Public'') =
     \<lparr>name_info.firstName = str ''Jane'', middleName = str ''Q.'', lastName = str ''Public''\<rparr> \<and>
   (\<forall>c\<in>set (name_info.firstName (extractName text)) \<union>
         set (name_info.middleName (extractName text)) \<union>
         set (name_info.lastName (extractName text)). is_name_char c) \<and>
   name_info.middleName (extractName text) \<noteq> str ''Q.''"
proof -
  have p: "parseFullName (str ''Jane Q. Public'') =
     \<lparr>name_info.firstName = str ''Jane'', middleName = str ''Q.'', lastName = str ''Public''\<rparr>"
    by code_simp
  have a: "\<forall>c\<in>set (name_info.firstName (extractName text)) \<union>
         set (name_info.middleName (extractName text)) \<union>
         set (name_info.lastName (extractName text)). is_name_char c"
  proof (cases "regex_match re_i labeledNameRegex text")
    case (Some m)
    from parsed_name_chars [OF name_match_chars [OF Some name_patterns_leaves(1), of 1]] Some
    show ?thesis by (simp add: extractName_def)
  next
    case None
    show ?thesis
    proof (cases "regex_match re_m firstLineRegex text")
      case (Some m)
      from parsed_name_chars [OF name_match_chars [OF Some name_patterns_leaves(2), of 1]] Some None
      show ?thesis by (simp add: extractName_def)
    next
      case n: None
      with None name_from_contact_chars [of "text"] show ?thesis by (simp add: extractName_def)
    qed
  qed
  have "\<not> is_name_char 46"
    by (simp add: is_name_char_def is_upper_def is_lower_def is_space_def)
  with a have "46 \<notin> set (name_info.middleName (extractName text))" by blast
  then have "name_info.middleName (extractName text) \<noteq> str ''Q.''"
    by (auto simp: str_def)
  with p a show ?thesis by blast
qed

theorem extractName_alphabet_witness:
  "extractName (str ''Jane Quinn Public'') =
     \<lparr>name_info.firstName = str ''Jane'', middleName = str ''Quinn'', lastName = str ''Public''\<rparr> \<and>
   list_all is_name_char (str ''Jane'' @ str ''Quinn'' @ str ''Public'') \<and>
   name_info.middleName (extractName (str ''Jane Quinn Public'')) \<noteq> str ''Q.''"
proof -
  let ?text = "str ''Jane Quinn Public''"
  have e: "extractName ?text =
     \<lparr>name_info.firstName = str ''Jane'', middleName = str ''Quinn'', lastName = str ''Public''\<rparr>"
    by code_simp
  from extractName_alphabet [of ?text]
  have a: "\<forall>c\<in>set (name_info.firstName (extractName ?text)) \<union>
         set (name_info.middleName (extractName ?text)) \<union>
         set (name_info.lastName (extractName ?text)). is_name_char c"
    and q: "name_info.middleName (extractName ?text) \<noteq> str ''Q.''"
    by blast+
  from a have "list_all is_name_char (str ''Jane'' @ str ''Quinn'' @ str ''Public'')"
    unfolding e by (simp add: list_all_iff ball_Un)
  with e q show ?thesis by blast
qed

text \<open>
  C8. The claim is that the parse returns for every text. A projects section in which the
  first three strategies find nothing and the fourth finds a title with a date range
  makes the loop of the fourth strategy run for ever, pushing the same project again and
  again: \<open>extractProjects\<close>, and with it \<open>extractInformation\<close>, does not return.
\<close>

theorem extractInformation_does_not_return:
  "extractProjects (lines_text [''Projects'', ''Compiler (Jan 2020 - Mar 2021)'']) = None \<and>
   extractInformation now (lines_text [''Projects'', ''Compiler (Jan 2020 - Mar 2021)'']) = None"
proof -
  let ?text = "lines_text [''Projects'', ''Compiler (Jan 2020 - Mar 2021)'']"
  let ?sec = "str ''Compiler (Jan 2020 - Mar 2021)''"
  have sec: "extractSection ?text projectsHeaders = ?sec"
    by code_simp
  have s1: "exec_loop re_i projectPattern1 ?sec = Some []"
    by code_simp
  have s2: "exec_loop re_plain projectTitleRegex ?sec = Some []"
    by code_simp
  have s3: "projects3 ?sec = []"
    by code_simp
  have "case exec_at re_i dateProjectRegex ?sec 0 of
          None \<Rightarrow> False
        | Some first \<Rightarrow> lastIndex_after ?sec first = 0"
    by code_simp
  then obtain first where e0: "exec_at re_i dateProjectRegex ?sec 0 = Some first"
    and l: "lastIndex_after ?sec first = 0"
    by (auto split: option.splits)
  have ne: "?sec \<noteq> []"
    by code_simp
  have "projects_in ?sec = None"
    using date_loop_diverges [OF e0 l, of "[]"]
    by (simp add: projects_in_def s1 s2 s3 strategy2_def strategy3_def strategy4_def)
  then have p: "extractProjects ?text = None"
    using ne by (simp add: extractProjects_def detected_projects_def sec)
  then have "extractInformation now ?text = None"
    by (simp add: extractInformation_def split: option.splits)
  with p show ?thesis by simp
qed

text \<open>
  C9. The claim is that the section locator goes on to the next synonym instead of
  accepting a span shorter than 10 characters. The loop goes on, but \<open>sectionText\<close> keeps
  the short span: when no later synonym matches, that span is returned. Here the synonym
  \<open>skills\<close> gives the span \<open>C, Go\<close> of 5 characters, two synonyms remain untried, and
  \<open>C, Go\<close> is the result.
\<close>

theorem extractSection_short_span_counterexample:
  "synonym_spans (lines_text [''Skills'', ''C, Go''])
     [str ''skills'', str ''key skills'', str ''expertise''] = [str ''C, Go''] \<and>
   extractSection (lines_text [''Skills'', ''C, Go''])
     [str ''skills'', str ''key skills'', str ''expertise''] = str ''C, Go''"
  by code_simp

text \<open>
  C9, amended. For every text and every list of synonyms, the section locator returns
  the span of the first synonym, in the order of the list, that matches with a span of 10
  characters or more. A shorter span is passed over for any later synonym that matches;
  if every synonym that matches has a span shorter than 10 characters, the span of the
  last of them is returned, and the empty text if no synonym matches.
\<close>

theorem extractSection_result:
  "extractSection text sectionHeaders = first_long_or_last (synonym_spans text sectionHeaders)"
proof (cases "1 < length sectionHeaders")
  case True
  from loop_many [OF True, of "text" sectionHeaders "[]"] show ?thesis
    by (auto simp: extractSection_def first_long_or_last_def split: option.splits)
next
  case False
  then have "length sectionHeaders \<le> 1" by simp
  from loop_few [OF this] show ?thesis by (simp add: extractSection_def)
qed

text \<open>
  C10. For every text, the record returned by \<open>extractDateRange\<close> has \<open>startDate\<close> and
  \<open>endDate\<close> both empty when none of the three patterns matches the text, and both
  non-empty when one of them matches.
\<close>

theorem extractDateRange_both_or_neither:
  "((\<forall>p\<in>set dateRangePatterns. regex_match re_i p text = None) \<longrightarrow>
      date_range.startDate (extractDateRange text) = [] \<and>
      date_range.endDate (extractDateRange text) = []) \<and>
   ((\<exists>p\<in>set dateRangePatterns. regex_match re_i p text \<noteq> None) \<longrightarrow>
      date_range.startDate (extractDateRange text) \<noteq> [] \<and>
      date_range.endDate (extractDateRange text) \<noteq> [])"
proof (cases "first_pattern re_i dateRangePatterns text")
  case None
  then show ?thesis using first_pattern_None [of re_i dateRangePatterns "text"]
    by (simp add: extractDateRange_def)
next
  case (Some m)
  from date_match_groups [OF Some] Some first_pattern_None [of re_i dateRangePatterns "text"]
  show ?thesis
    by (auto simp: extractDateRange_def str_def)
qed

theorem extractDateRange_both_or_neither_witness:
  "list_all (\<lambda>p. regex_match re_i p (str ''since last year'') = None) dateRangePatterns \<and>
   extractDateRange (str ''since last year'') = \<lparr>startDate = [], endDate = []\<rparr> \<and>
   regex_match re_i (hd dateRangePatterns) (str ''2019 - now'') \<noteq> None \<and>
   extractDateRange (str ''2019 - now'') = \<lparr>startDate = str ''2019'', endDate = str ''Present''\<rparr> \<and>
   date_range.startDate (extractDateRange (str ''2019 - now'')) \<noteq> [] \<and>
   date_range.endDate (extractDateRange (str ''2019 - now'')) \<noteq> []"
proof -
  let ?none = "str ''since last year''"
  let ?some = "str ''2019 - now''"
  have h1: "list_all (\<lambda>p. regex_match re_i p ?none = None) dateRangePatterns"
    by code_simp
  have h2: "regex_match re_i (hd dateRangePatterns) ?some \<noteq> None"
    by code_simp
  have h3: "hd dateRangePatterns \<in> set dateRangePatterns"
    by (simp add: dateRangePatterns_def)
  have v: "extractDateRange ?some = \<lparr>startDate = str ''2019'', endDate = str ''Present''\<rparr>"
    by code_simp
  from h1 have "\<forall>p\<in>set dateRangePatterns. regex_match re_i p ?none = None"
    by (simp add: list_all_iff)
  with extractDateRange_both_or_neither [of ?none]
  have "date_range.startDate (extractDateRange ?none) = [] \<and>
        date_range.endDate (extractDateRange ?none) = []" by blast
  then have r1: "extractDateRange ?none = \<lparr>startDate = [], endDate = []\<rparr>"
    by (cases "extractDateRange ?none") simp
  from h2 h3 extractDateRange_both_or_neither [of ?some]
  have r2: "date_range.startDate (extractDateRange ?some) \<noteq> [] \<and>
        date_range.endDate (extractDateRange ?some) \<noteq> []" by blast
  from h1 r1 h2 v r2 show ?thesis by blast
qed

end
